theory Spec2Isabelle
  imports Main
begin

section \<open>Data model\<close>

text \<open>
  Identifiers. A MongoDB ObjectId is modelled by the string that \<^verbatim>\<open>toString()\<close> gives
  for it, which writes the hexadecimal digits in lower case; a socket id and a room name
  are strings as in socket.io. Socket ids are generated by socket.io and are never empty,
  so a socket id is truthy.
\<close>

type_synonym oid = string
type_synonym sid = string

text \<open>\<^verbatim>\<open>models/Chat.js\<close>: the persisted conversation document (timestamps are not modelled).\<close>

record chat =
  chat_id :: oid
  chatName :: string
  isGroupChat :: bool
  users :: "oid list"
  latestMessage :: "oid option"
  groupAdmin :: "oid option"
  about :: string
  groupPic :: string

text \<open>\<^verbatim>\<open>models/Message.js\<close>.\<close>

record message =
  msg_id :: oid
  sender :: oid
  content :: string
  msg_chat :: oid

text \<open>The object a client sends with \<^verbatim>\<open>setup\<close>; a field that is absent is \<open>None\<close>.\<close>

record userData =
  ud_id :: "string option"
  ud_name :: "string option"

text \<open>
  What the server sends. The constructor is the event name, its arguments the payload:
  \<^verbatim>\<open>get online users\<close>, \<^verbatim>\<open>connected\<close>, \<^verbatim>\<open>typing\<close>, \<^verbatim>\<open>stop typing\<close>, \<^verbatim>\<open>call-incoming\<close>
  (signal, from, name, callType), \<^verbatim>\<open>call-accepted\<close> (signal, from), \<^verbatim>\<open>signal\<close>
  (signal, from), \<^verbatim>\<open>call-ended\<close> (from), and the events of the HTTP controllers.
\<close>

datatype event =
    GetOnlineUsers "string list"
  | Connected
  | Typing "string option" string
  | StopTyping "string option" string
  | CallIncoming "string option" "string option" "string option" "string option"
  | CallAccepted "string option" "string option"
  | SignalEv "string option" "string option"
  | CallEnded "string option"
  | NewChat chat
  | AddedToGroup chat
  | GroupUpdated chat
  | RemovedFromGroup oid string
  | UserLeftGroup chat
  | GroupDeleted oid string
  | MessageReceived message
  | LatestMessageUpdate message

text \<open>
  The four ways the source addresses an event: \<^verbatim>\<open>io.emit\<close>, \<^verbatim>\<open>socket.emit\<close>,
  \<^verbatim>\<open>io.to(room).emit\<close> and \<^verbatim>\<open>socket.to(room).emit\<close> (the room without the sender).
  \<open>ObjectRoom k\<close> is \<^verbatim>\<open>io.to(v)\<close> for the function or object \<open>v\<close> that
  \<^verbatim>\<open>Object.prototype\<close> holds under the name \<open>k\<close>: socket.io takes any value as a room,
  and no socket is in this one.
\<close>

datatype target =
  AllSockets | ThisSocket sid | Room string | RoomExcept string sid | ObjectRoom string

text \<open>
  An emitted event, in the order of emission. \<open>em_store\<close> records the persisted
  collections as they are at the moment of the emission: what a client reading the
  store on receipt of the event would be given.
\<close>

record emission =
  em_to :: target
  em_event :: event
  em_store :: "chat list \<times> message list"

text \<open>
  The state of the process: the two persisted collections and the ids of the User
  collection, the in-memory \<^verbatim>\<open>onlineUsers\<close> object of \<^verbatim>\<open>server.js\<close> (its properties in
  insertion order), the rooms each socket has joined, \<^verbatim>\<open>socket.userData\<close>, and the
  events emitted so far.
\<close>

record world =
  chats :: "chat list"
  messages :: "message list"
  userColl :: "oid list"
  onlineUsers :: "(string \<times> sid) list"
  rooms :: "sid \<Rightarrow> string set"
  socketUserData :: "sid \<Rightarrow> userData option"
  outbox :: "emission list"

section \<open>JavaScript objects as ordered property lists\<close>

text \<open>
  A plain object \<^verbatim>\<open>{}\<close> is the list of its own properties, in insertion order, over
  the properties it inherits from \<^verbatim>\<open>Object.prototype\<close>. \<open>obj_get\<close> reads an own
  property; \<open>obj_set\<close> is \<^verbatim>\<open>obj[k] = v\<close> for a string \<open>v\<close>: an existing property keeps
  its position, a new one goes last, and the key \<^verbatim>\<open>__proto__\<close> stores nothing (its
  setter ignores a value that is not an object); \<open>obj_delete\<close> is \<^verbatim>\<open>delete obj[k]\<close>.
\<close>

fun obj_get :: "(string \<times> 'v) list \<Rightarrow> string \<Rightarrow> 'v option" where
  "obj_get [] k = None"
| "obj_get ((k', v) # ps) k = (if k' = k then Some v else obj_get ps k)"

fun own_set :: "(string \<times> 'v) list \<Rightarrow> string \<Rightarrow> 'v \<Rightarrow> (string \<times> 'v) list" where
  "own_set [] k v = [(k, v)]"
| "own_set ((k', v') # ps) k v = (if k' = k then (k, v) # ps else (k', v') # own_set ps k v)"

definition obj_set :: "(string \<times> 'v) list \<Rightarrow> string \<Rightarrow> 'v \<Rightarrow> (string \<times> 'v) list" where
  "obj_set ps k v = (if k = ''__proto__'' then ps else own_set ps k v)"

fun obj_delete :: "(string \<times> 'v) list \<Rightarrow> string \<Rightarrow> (string \<times> 'v) list" where
  "obj_delete [] k = []"
| "obj_delete ((k', v') # ps) k = (if k' = k then obj_delete ps k else (k', v') # obj_delete ps k)"

text \<open>
  The names of the properties of \<^verbatim>\<open>Object.prototype\<close>; each holds a function, and
  \<^verbatim>\<open>__proto__\<close> reads as the prototype object itself: all of them truthy.
\<close>

definition proto_names :: "string list" where
  "proto_names = [''constructor'', ''__defineGetter__'', ''__defineSetter__'',
     ''hasOwnProperty'', ''__lookupGetter__'', ''__lookupSetter__'', ''isPrototypeOf'',
     ''propertyIsEnumerable'', ''toString'', ''valueOf'', ''__proto__'', ''toLocaleString'']"

text \<open>
  The value of \<^verbatim>\<open>obj[k]\<close> on an object whose own properties hold strings: the own
  property, else the inherited one, else \<^verbatim>\<open>undefined\<close>.
\<close>

datatype jsval = Undefined | Str string | Inherited string

definition obj_lookup :: "(string \<times> string) list \<Rightarrow> string \<Rightarrow> jsval" where
  "obj_lookup ps k =
     (case obj_get ps k of
        Some v \<Rightarrow> Str v
      | None \<Rightarrow> if k \<in> set proto_names then Inherited k else Undefined)"

text \<open>
  \<^verbatim>\<open>Object.keys\<close> lists the array-index keys first (canonical decimal numerals up to
  \<open>2^32 - 2\<close>), in ascending numeric order, then the other keys in insertion order.
\<close>

definition is_digit :: "char \<Rightarrow> bool" where
  "is_digit c = (c \<in> set ''0123456789'')"

definition dec_value :: "string \<Rightarrow> nat" where
  "dec_value k = foldl (\<lambda>n c. 10 * n + (of_char c - 48)) 0 k"

definition is_array_index :: "string \<Rightarrow> bool" where
  "is_array_index k =
     (k \<noteq> [] \<and> list_all is_digit k \<and> (k = ''0'' \<or> hd k \<noteq> CHR ''0'') \<and> dec_value k \<le> 4294967294)"

definition Object_keys :: "(string \<times> 'v) list \<Rightarrow> string list" where
  "Object_keys obj =
     (let ks = map fst obj
      in sort_key dec_value (filter is_array_index ks) @ filter (\<lambda>k. \<not> is_array_index k) ks)"

section \<open>\<^verbatim>\<open>server.js\<close>: the socket handlers\<close>

definition emit :: "target \<Rightarrow> event \<Rightarrow> world \<Rightarrow> world" where
  "emit t e w =
     w\<lparr>outbox := outbox w @ [\<lparr>em_to = t, em_event = e, em_store = (chats w, messages w)\<rparr>]\<rparr>"

definition join :: "sid \<Rightarrow> string \<Rightarrow> world \<Rightarrow> world" where
  "join sock room w = w\<lparr>rooms := (rooms w)(sock := insert room (rooms w sock))\<rparr>"

text \<open>socket.io puts a new socket into the room named by its own id.\<close>

definition on_connection :: "sid \<Rightarrow> world \<Rightarrow> world" where
  "on_connection sock w =
     w\<lparr>rooms := (rooms w)(sock := {sock}), socketUserData := (socketUserData w)(sock := None)\<rparr>"

text \<open>\<^verbatim>\<open>getUserIdFromSocketId\<close> (server.js:41): the first key whose value is the socket id.\<close>

definition getUserIdFromSocketId :: "(string \<times> sid) list \<Rightarrow> sid \<Rightarrow> string option" where
  "getUserIdFromSocketId obj socketId =
     find (\<lambda>userId. obj_lookup obj userId = Str socketId) (Object_keys obj)"

text \<open>
  The \<^verbatim>\<open>setup\<close> handler (server.js:104). \<^verbatim>\<open>!userData || !userData._id\<close> holds for a
  missing payload, a missing \<^verbatim>\<open>_id\<close> and the empty string.
\<close>

definition on_setup :: "sid \<Rightarrow> userData option \<Rightarrow> world \<Rightarrow> world" where
  "on_setup sock userData w =
     (case userData of
        None \<Rightarrow> w
      | Some ud \<Rightarrow>
          (case ud_id ud of
             None \<Rightarrow> w
           | Some uid \<Rightarrow>
               if uid = [] then w
               else
                 let w1 = join sock uid w;
                     w2 = w1\<lparr>socketUserData := (socketUserData w1)(sock \<mapsto> ud)\<rparr>;
                     w3 = w2\<lparr>onlineUsers := obj_set (onlineUsers w2) uid sock\<rparr>;
                     w4 = emit AllSockets (GetOnlineUsers (Object_keys (onlineUsers w3))) w3
                 in emit (ThisSocket sock) Connected w4))"

text \<open>The \<^verbatim>\<open>join chat\<close> handler (server.js:123); \<open>None\<close> and the empty string are falsy.\<close>

definition on_join_chat :: "sid \<Rightarrow> string option \<Rightarrow> world \<Rightarrow> world" where
  "on_join_chat sock chatId w =
     (case chatId of
        None \<Rightarrow> w
      | Some cid \<Rightarrow> if cid = [] then w else join sock cid w)"

text \<open>\<^verbatim>\<open>socket.userData?._id\<close>.\<close>

definition socket_user_id :: "world \<Rightarrow> sid \<Rightarrow> string option" where
  "socket_user_id w sock = (case socketUserData w sock of None \<Rightarrow> None | Some ud \<Rightarrow> ud_id ud)"

definition truthy :: "string option \<Rightarrow> bool" where
  "truthy x = (case x of None \<Rightarrow> False | Some s \<Rightarrow> s \<noteq> [])"

definition on_typing :: "sid \<Rightarrow> string option \<Rightarrow> world \<Rightarrow> world" where
  "on_typing sock chatId w =
     (if \<not> truthy chatId \<or> \<not> truthy (socket_user_id w sock) then w
      else emit (RoomExcept (the chatId) sock) (Typing (socket_user_id w sock) (the chatId)) w)"

definition on_stop_typing :: "sid \<Rightarrow> string option \<Rightarrow> world \<Rightarrow> world" where
  "on_stop_typing sock chatId w =
     (if \<not> truthy chatId \<or> \<not> truthy (socket_user_id w sock) then w
      else emit (RoomExcept (the chatId) sock) (StopTyping (socket_user_id w sock) (the chatId)) w)"

text \<open>
  The lookups \<^verbatim>\<open>onlineUsers[userToCall]\<close> and \<^verbatim>\<open>onlineUsers[to]\<close> of the signalling
  handlers (server.js:158, 175, 185, 196) are \<open>obj_lookup (onlineUsers w)\<close>. \<open>resolve\<close> is
  the connection that the registry holds for an identity; \<open>isOnline\<close> is the test
  \<^verbatim>\<open>if (recipientSocketId)\<close> of the handlers.
\<close>

definition resolve :: "world \<Rightarrow> string \<Rightarrow> sid option" where
  "resolve w userId =
     (case obj_lookup (onlineUsers w) userId of Str socketId \<Rightarrow> Some socketId | _ \<Rightarrow> None)"

definition isOnline :: "world \<Rightarrow> string \<Rightarrow> bool" where
  "isOnline w userId = (obj_lookup (onlineUsers w) userId \<noteq> Undefined)"

text \<open>The payloads of the four signalling messages; the target is the property key.\<close>

record call_user_msg =
  userToCall :: string
  signalData :: "string option"
  cu_from :: "string option"
  cu_name :: "string option"
  callType :: "string option"

record relay_msg =
  rm_to :: string
  rm_signal :: "string option"

definition on_call_user :: "sid \<Rightarrow> call_user_msg \<Rightarrow> world \<Rightarrow> world" where
  "on_call_user sock m w =
     (case obj_lookup (onlineUsers w) (userToCall m) of
        Undefined \<Rightarrow> w
      | Str recipientSocketId \<Rightarrow>
          emit (Room recipientSocketId)
            (CallIncoming (signalData m) (cu_from m) (cu_name m) (callType m)) w
      | Inherited k \<Rightarrow>
          emit (ObjectRoom k)
            (CallIncoming (signalData m) (cu_from m) (cu_name m) (callType m)) w)"

definition on_call_accepted :: "sid \<Rightarrow> relay_msg \<Rightarrow> world \<Rightarrow> world" where
  "on_call_accepted sock m w =
     (case obj_lookup (onlineUsers w) (rm_to m) of
        Undefined \<Rightarrow> w
      | Str callerSocketId \<Rightarrow>
          emit (Room callerSocketId) (CallAccepted (rm_signal m) (socket_user_id w sock)) w
      | Inherited k \<Rightarrow>
          emit (ObjectRoom k) (CallAccepted (rm_signal m) (socket_user_id w sock)) w)"

definition on_signal :: "sid \<Rightarrow> relay_msg \<Rightarrow> world \<Rightarrow> world" where
  "on_signal sock m w =
     (case obj_lookup (onlineUsers w) (rm_to m) of
        Undefined \<Rightarrow> w
      | Str recipientSocketId \<Rightarrow>
          emit (Room recipientSocketId) (SignalEv (rm_signal m) (socket_user_id w sock)) w
      | Inherited k \<Rightarrow>
          emit (ObjectRoom k) (SignalEv (rm_signal m) (socket_user_id w sock)) w)"

definition on_call_ended :: "sid \<Rightarrow> string \<Rightarrow> world \<Rightarrow> world" where
  "on_call_ended sock to w =
     (case obj_lookup (onlineUsers w) to of
        Undefined \<Rightarrow> w
      | Str recipientSocketId \<Rightarrow>
          emit (Room recipientSocketId) (CallEnded (socket_user_id w sock)) w
      | Inherited k \<Rightarrow> emit (ObjectRoom k) (CallEnded (socket_user_id w sock)) w)"

text \<open>
  The \<^verbatim>\<open>disconnect\<close> handler (server.js:205). socket.io has taken the socket out of its
  rooms when the handler runs. A key found is never empty, since \<open>on_setup\<close> stores none.
\<close>

definition on_disconnect :: "sid \<Rightarrow> world \<Rightarrow> world" where
  "on_disconnect sock w0 =
     (let w = w0\<lparr>rooms := (rooms w0)(sock := {})\<rparr>;
          w1 = (case getUserIdFromSocketId (onlineUsers w) sock of
                  Some disconnectedUserId \<Rightarrow>
                    if disconnectedUserId = [] then w
                    else
                      let w' = w\<lparr>onlineUsers := obj_delete (onlineUsers w) disconnectedUserId\<rparr>
                      in emit AllSockets (GetOnlineUsers (Object_keys (onlineUsers w'))) w'
                | None \<Rightarrow> w)
      in w1\<lparr>socketUserData := (socketUserData w1)(sock := None)\<rparr>)"

text \<open>The server before any connection, with nothing persisted.\<close>

definition world0 :: world where
  "world0 = \<lparr>chats = [], messages = [], userColl = [], onlineUsers = [],
     rooms = (\<lambda>_. {}), socketUserData = (\<lambda>_. None), outbox = []\<rparr>"

section \<open>The persisted store\<close>

text \<open>
  A collection is the list of its documents in natural order; \<^verbatim>\<open>findOne\<close> returns the
  first match. Each operation below is one atomic database call. Database calls are
  taken not to throw, with one exception: an insert under an \<^verbatim>\<open>_id\<close> that is in use.
\<close>

definition findOne :: "(chat \<Rightarrow> bool) \<Rightarrow> chat list \<Rightarrow> chat option" where
  "findOne P cs = find P cs"

definition findById :: "oid \<Rightarrow> chat list \<Rightarrow> chat option" where
  "findById i cs = find (\<lambda>c. chat_id c = i) cs"

fun update_first :: "(chat \<Rightarrow> bool) \<Rightarrow> (chat \<Rightarrow> chat) \<Rightarrow> chat list \<Rightarrow> chat list" where
  "update_first P f [] = []"
| "update_first P f (c # cs) = (if P c then f c # cs else c # update_first P f cs)"

text \<open>\<^verbatim>\<open>findOneAndUpdate(filter, update, { new: true })\<close>: the updated document, or null.\<close>

definition findOneAndUpdate ::
  "(chat \<Rightarrow> bool) \<Rightarrow> (chat \<Rightarrow> chat) \<Rightarrow> chat list \<Rightarrow> chat option \<times> chat list" where
  "findOneAndUpdate P f cs =
     (case find P cs of
        None \<Rightarrow> (None, cs)
      | Some c \<Rightarrow> (Some (f c), update_first P f cs))"

fun delete_first :: "(chat \<Rightarrow> bool) \<Rightarrow> chat list \<Rightarrow> chat list" where
  "delete_first P [] = []"
| "delete_first P (c # cs) = (if P c then cs else c # delete_first P cs)"

text \<open>
  \<^verbatim>\<open>new Set(xs)\<close> spread into an array: the first occurrence of each element, in order.
  \<^verbatim>\<open>$addToSet\<close> with \<^verbatim>\<open>$each\<close> appends, in order, the values the array does not hold;
  \<^verbatim>\<open>$pull\<close> removes every occurrence.
\<close>

definition addToSet :: "'a list \<Rightarrow> 'a list \<Rightarrow> 'a list" where
  "addToSet xs ys = foldl (\<lambda>acc y. if y \<in> set acc then acc else acc @ [y]) xs ys"

definition uniq :: "'a list \<Rightarrow> 'a list" where
  "uniq xs = addToSet [] xs"

definition pull :: "'a \<Rightarrow> 'a list \<Rightarrow> 'a list" where
  "pull x xs = filter (\<lambda>y. y \<noteq> x) xs"

text \<open>\<^verbatim>\<open>String.prototype.trim\<close>, on the ASCII white space characters.\<close>

definition is_space :: "char \<Rightarrow> bool" where
  "is_space c = (c \<in> {CHR 0x09, CHR 0x0A, CHR 0x0B, CHR 0x0C, CHR 0x0D, CHR 0x20})"

definition trim :: "string \<Rightarrow> string" where
  "trim s = rev (dropWhile is_space (rev (dropWhile is_space s)))"

section \<open>\<^verbatim>\<open>controllers/chatController.js\<close>\<close>

text \<open>
  A request field that should hold an ObjectId: absent (falsy), present but rejected by
  \<^verbatim>\<open>mongoose.Types.ObjectId.isValid\<close>, or a string that it accepts, as the client
  spelled it. \<open>raw_id\<close> is that string, which the source compares with \<^verbatim>\<open>===\<close> and
  uses as a room name; \<open>the_id\<close> is the ObjectId that a query casts it to, the string
  with its hexadecimal digits in lower case.
\<close>

datatype id_field = Absent | Malformed | Id string

fun isValid :: "id_field \<Rightarrow> bool" where
  "isValid (Id s) = True"
| "isValid _ = False"

definition lower_hex :: "char \<Rightarrow> char" where
  "lower_hex c =
     (if c = CHR ''A'' then CHR ''a'' else if c = CHR ''B'' then CHR ''b''
      else if c = CHR ''C'' then CHR ''c'' else if c = CHR ''D'' then CHR ''d''
      else if c = CHR ''E'' then CHR ''e'' else if c = CHR ''F'' then CHR ''f'' else c)"

definition canon :: "string \<Rightarrow> oid" where
  "canon s = map lower_hex s"

fun raw_id :: "id_field \<Rightarrow> string" where
  "raw_id (Id s) = s"
| "raw_id _ = []"

fun the_id :: "id_field \<Rightarrow> oid" where
  "the_id (Id s) = canon s"
| "the_id _ = []"

text \<open>
  The JSON body of a response with its status code. Messages are spelled as in the
  source, without quote characters and with template placeholders left out.
\<close>

record response =
  status :: nat
  success :: bool
  message :: string
  res_chat :: "chat option"

definition json :: "nat \<Rightarrow> bool \<Rightarrow> string \<Rightarrow> chat option \<Rightarrow> response" where
  "json st ok msg c = \<lparr>status = st, success = ok, message = msg, res_chat = c\<rparr>"

definition fail :: "nat \<Rightarrow> string \<Rightarrow> response" where
  "fail st msg = json st False msg None"

text \<open>
  \<^verbatim>\<open>populateChat\<close> (chatController.js:9) gives null for a null document and when the
  population fails; \<open>pop\<close> says whether the population succeeds. The populated document
  is represented by the document itself: the profiles that replace the member ids are
  not modelled, and the theorems below read the members from the store only.
\<close>

definition populateChat :: "bool \<Rightarrow> chat option \<Rightarrow> chat option" where
  "populateChat pop c = (case c of None \<Rightarrow> None | Some d \<Rightarrow> if pop then Some d else None)"

text \<open>
  The filter of the query at chatController.js:97:
  \<^verbatim>\<open>{ isGroupChat: false, users: { $all: [requesterId, userId], $size: 2 } }\<close>.
\<close>

definition direct_query :: "oid \<Rightarrow> oid \<Rightarrow> chat \<Rightarrow> bool" where
  "direct_query a b c =
     (\<not> isGroupChat c \<and> a \<in> set (users c) \<and> b \<in> set (users c) \<and> length (users c) = 2)"

text \<open>
  \<^verbatim>\<open>accessChat\<close> (chatController.js:44). The self-chat test of line 75 compares the
  string as sent; the queries and the insert cast it. \<open>newId\<close> is the \<^verbatim>\<open>_id\<close> that
  \<^verbatim>\<open>Chat.create\<close> gives the new document; the insert throws when the id is in use, and
  the \<^verbatim>\<open>catch\<close> answers 500. \<^verbatim>\<open>req.io\<close> is set by the middleware of server.js:61 on
  every request.
\<close>

definition accessChat :: "oid option \<Rightarrow> id_field \<Rightarrow> oid \<Rightarrow> bool \<Rightarrow> world \<Rightarrow> world \<times> response" where
  "accessChat requesterId userId newId pop w =
     (if userId = Absent then (w, fail 400 ''UserId parameter is required'')
      else if requesterId = None then (w, fail 401 ''User not authenticated'')
      else if \<not> isValid userId then (w, fail 400 ''Invalid target user ID format.'')
      else
        let uid = the_id userId; rid = the requesterId in
        if raw_id userId = rid then (w, fail 400 ''Cannot create a chat with yourself.'')
        else if uid \<notin> set (userColl w) then (w, fail 404 ''Target user not found'')
        else
          case findOne (direct_query rid uid) (chats w) of
            Some existingChat \<Rightarrow>
              (case populateChat pop (Some existingChat) of
                 None \<Rightarrow> (w, fail 500 ''Failed to retrieve chat details'')
               | Some fullChat \<Rightarrow> (w, json 200 True [] (Some fullChat)))
          | None \<Rightarrow>
              if newId \<in> chat_id ` set (chats w)
              then (w, fail 500 ''Server error during chat access/creation.'')
              else
                let createdChat = \<lparr>chat_id = newId, chatName = ''sender'', isGroupChat = False,
                      users = [rid, uid], latestMessage = None, groupAdmin = None,
                      about = [], groupPic = []\<rparr>;
                    w1 = w\<lparr>chats := chats w @ [createdChat]\<rparr>
                in (case findById newId (chats w1) of
                      None \<Rightarrow> (w1, fail 500 ''Failed to process created chat.'')
                    | Some chatToPopulate \<Rightarrow>
                        (case populateChat pop (Some chatToPopulate) of
                           None \<Rightarrow> (w1, fail 500 ''Failed to create chat details'')
                         | Some fullChat \<Rightarrow>
                             (emit (Room (raw_id userId)) (NewChat fullChat) w1,
                              json 201 True [] (Some fullChat)))))"

text \<open>
  \<^verbatim>\<open>createGroupChat\<close> (chatController.js:266). \<open>userIds\<close> (the field
  \<^verbatim>\<open>users\<close>) is \<open>None\<close> when it is missing or not an array. The two \<^verbatim>\<open>Set\<close>s of lines 295
  and 303 hold the strings as sent, with the creator's \<^verbatim>\<open>toString()\<close>; the insert casts
  each string. No call reads the User collection.
\<close>

definition createGroupChat ::
  "oid option \<Rightarrow> string option \<Rightarrow> id_field list option \<Rightarrow> string option \<Rightarrow> oid \<Rightarrow> bool
     \<Rightarrow> world \<Rightarrow> world \<times> response" where
  "createGroupChat creatorId name userIds aboutText newId pop w =
     (if creatorId = None then (w, fail 401 ''User not authenticated'')
      else if \<not> truthy (map_option trim name) \<or> userIds = None \<or> length (the userIds) < 2
      then (w, fail 400 ''Group name and at least 2 other users (IDs) are required.'')
      else
        let memberIds = uniq (the userIds) in
        if \<exists>x \<in> set memberIds. \<not> isValid x
        then (w, fail 400 ''Invalid user ID format provided.'')
        else
          let cid = the creatorId;
              finalUsers = uniq (cid # map raw_id memberIds) in
          if length finalUsers < 3
          then (w, fail 400 ''Group requires at least 3 unique members (including creator).'')
          else if newId \<in> chat_id ` set (chats w)
          then (w, fail 500 ''Failed to create group chat due to a server error.'')
          else
            let createdGroup = \<lparr>chat_id = newId, chatName = trim (the name),
                  isGroupChat = True, users = map canon finalUsers, latestMessage = None,
                  groupAdmin = Some cid,
                  about = (case aboutText of None \<Rightarrow> [] | Some a \<Rightarrow> trim a), groupPic = []\<rparr>;
                w1 = w\<lparr>chats := chats w @ [createdGroup]\<rparr>
            in (case findById newId (chats w1) of
                 None \<Rightarrow> (w1, fail 500 ''Failed processing created group.'')
               | Some groupToPopulate \<Rightarrow>
                   (case populateChat pop (Some groupToPopulate) of
                      None \<Rightarrow> (w1, fail 500 ''Failed getting full group details.'')
                    | Some fullGroupChat \<Rightarrow>
                        (foldl (\<lambda>w' u. if u \<noteq> cid
                                        then emit (Room u) (AddedToGroup fullGroupChat) w'
                                        else w')
                           w1 (users fullGroupChat),
                         json 201 True ''Group chat created successfully'' (Some fullGroupChat)))))"

text \<open>
  The second read that classifies a conditional write or read that matched nothing
  (chatController.js:445-469, 558-577, 672-695, 1298-1320, 1400-1429); \<open>chatId\<close> is the
  id that \<^verbatim>\<open>findById\<close> casts the request string to.
\<close>

definition classify_failure ::
  "oid \<Rightarrow> oid \<Rightarrow> string \<Rightarrow> string \<Rightarrow> string \<Rightarrow> string \<Rightarrow> chat list \<Rightarrow> response" where
  "classify_failure chatId rid notFound notGroup notAdmin fallback cs =
     (case findById chatId cs of
        None \<Rightarrow> fail 404 notFound
      | Some chatExists \<Rightarrow>
          if \<not> isGroupChat chatExists then fail 400 notGroup
          else if groupAdmin chatExists \<noteq> Some rid then fail 403 notAdmin
          else fail 500 fallback)"

text \<open>
  The body shared by \<^verbatim>\<open>renameGroup\<close>, \<^verbatim>\<open>updateGroupAbout\<close> and \<^verbatim>\<open>updateGroupPic\<close> after
  validation: one \<^verbatim>\<open>findOneAndUpdate\<close> whose filter names the id, the group flag and the
  admin; then population and the \<^verbatim>\<open>group updated\<close> event, sent to the room named by
  the request string. \<open>chatId\<close> is the string as sent.
\<close>

definition admin_update ::
  "string \<Rightarrow> oid \<Rightarrow> (chat \<Rightarrow> chat) \<Rightarrow> string \<Rightarrow> string \<Rightarrow> string \<Rightarrow> string \<Rightarrow> string \<Rightarrow> bool
     \<Rightarrow> world \<Rightarrow> world \<times> response" where
  "admin_update chatId rid upd notGroup notAdmin fallback degraded done pop w =
     (case findOneAndUpdate
             (\<lambda>c. chat_id c = canon chatId \<and> isGroupChat c \<and> groupAdmin c = Some rid) upd
             (chats w) of
        (None, _) \<Rightarrow>
          (w, classify_failure (canon chatId) rid ''Chat not found'' notGroup notAdmin fallback
                (chats w))
      | (Some updatedChatRaw, cs') \<Rightarrow>
          let w1 = w\<lparr>chats := cs'\<rparr> in
          (case populateChat pop (Some updatedChatRaw) of
             None \<Rightarrow> (w1, json 200 True degraded (Some updatedChatRaw))
           | Some updatedChat \<Rightarrow>
               (emit (Room chatId) (GroupUpdated updatedChat) w1,
                json 200 True done (Some updatedChat))))"

text \<open>\<^verbatim>\<open>renameGroup\<close> (chatController.js:409).\<close>

definition renameGroup ::
  "oid option \<Rightarrow> id_field \<Rightarrow> string option \<Rightarrow> bool \<Rightarrow> world \<Rightarrow> world \<times> response" where
  "renameGroup requesterId chatId name pop w =
     (if requesterId = None then (w, fail 401 ''Not authenticated'')
      else if chatId = Absent \<or> \<not> truthy (map_option trim name)
      then (w, fail 400 ''Chat ID and new name required'')
      else if \<not> isValid chatId then (w, fail 400 ''Invalid Chat ID format.'')
      else admin_update (raw_id chatId) (the requesterId)
             (\<lambda>c. c\<lparr>chatName := trim (the name)\<rparr>)
             ''Only groups can be renamed'' ''Admin only action''
             ''Failed to rename group for unknown reason.''
             ''Group renamed, but failed to refresh details.''
             ''Group renamed successfully'' pop w)"

text \<open>\<^verbatim>\<open>updateGroupAbout\<close> (chatController.js:521); the empty text is allowed.\<close>

definition updateGroupAbout ::
  "oid option \<Rightarrow> id_field \<Rightarrow> string option \<Rightarrow> bool \<Rightarrow> world \<Rightarrow> world \<times> response" where
  "updateGroupAbout requesterId chatId aboutText pop w =
     (if requesterId = None then (w, fail 401 ''Not authenticated'')
      else if chatId = Absent \<or> aboutText = None
      then (w, fail 400 ''Chat ID and about text required'')
      else if \<not> isValid chatId then (w, fail 400 ''Invalid Chat ID format.'')
      else admin_update (raw_id chatId) (the requesterId)
             (\<lambda>c. c\<lparr>about := trim (the aboutText)\<rparr>)
             ''Only groups can be updated'' ''Admin only action''
             ''Failed to update description.''
             ''Group description updated, but failed to refresh details.''
             ''Group description updated successfully'' pop w)"

text \<open>\<^verbatim>\<open>updateGroupPic\<close> (chatController.js:1258).\<close>

definition updateGroupPic ::
  "oid option \<Rightarrow> id_field \<Rightarrow> string option \<Rightarrow> bool \<Rightarrow> world \<Rightarrow> world \<times> response" where
  "updateGroupPic requesterId chatId pic pop w =
     (if requesterId = None then (w, fail 401 ''Not authenticated'')
      else if chatId = Absent \<or> \<not> truthy pic
      then (w, fail 400 ''Chat ID and picture URL required.'')
      else if \<not> isValid chatId then (w, fail 400 ''Invalid Chat ID format.'')
      else admin_update (raw_id chatId) (the requesterId)
             (\<lambda>c. c\<lparr>groupPic := the pic\<rparr>)
             ''Can only set picture for groups.'' ''Only admin can update picture.''
             ''Failed to update group picture.''
             ''Group picture updated, but failed to refresh details.''
             ''Group picture updated successfully.'' pop w)"

text \<open>
  \<^verbatim>\<open>addToGroup\<close> (chatController.js:630) reads, then writes. \<open>addToGroup_check\<close> is the
  part up to line 747: validation, the read of the chat with the admin in the filter,
  and the selection of the ids to add. The filter of line 702 compares the strings as
  sent with the \<^verbatim>\<open>toString()\<close> of the requester and of the members; \<^verbatim>\<open>User.find\<close> with
  \<^verbatim>\<open>$in\<close> casts them and returns the users in the order of the collection. It answers
  early (\<open>Inl\<close>) or yields \<^verbatim>\<open>finalNewMemberIds\<close>.
\<close>

definition addToGroup_check ::
  "oid option \<Rightarrow> id_field \<Rightarrow> id_field list option \<Rightarrow> world \<Rightarrow> response + oid list" where
  "addToGroup_check requesterId chatId userIds w =
     (if requesterId = None then Inl (fail 401 ''Not authenticated'')
      else if chatId = Absent \<or> userIds = None \<or> the userIds = []
      then Inl (fail 400 ''Chat ID and a non-empty array of user IDs are required'')
      else if \<not> isValid chatId then Inl (fail 400 ''Invalid Chat ID format.'')
      else if filter (\<lambda>i. \<not> isValid i) (the userIds) \<noteq> []
      then Inl (fail 400 ''Invalid or missing User ID format provided for: '')
      else
        let cid = the_id chatId; rid = the requesterId in
        case findOne (\<lambda>c. chat_id c = cid \<and> isGroupChat c \<and> groupAdmin c = Some rid) (chats w) of
          None \<Rightarrow>
            Inl (classify_failure cid rid ''Chat not found'' ''Not a group chat''
                   ''Admin only action'' ''Failed to verify chat/admin status.'' (chats w))
        | Some chat \<Rightarrow>
            let uniqueUserIdsToAdd = uniq (map raw_id (the userIds));
                currentMemberIds = users chat;
                potentialNewMemberIds =
                  filter (\<lambda>i. i \<noteq> rid \<and> i \<notin> set currentMemberIds) uniqueUserIdsToAdd
            in if potentialNewMemberIds = []
               then Inl (fail 400
                 ''No new valid users selected, or all selected users are already in the group.'')
               else
                 let finalNewMemberIds =
                       filter (\<lambda>u. u \<in> canon ` set potentialNewMemberIds) (userColl w)
                 in if length finalNewMemberIds \<noteq> length potentialNewMemberIds
                       \<and> finalNewMemberIds = []
                    then Inl (fail 400 ''None of the selected users exist.'')
                    else if finalNewMemberIds = []
                    then Inl (fail 400 ''No valid new members to add.'')
                    else Inr finalNewMemberIds)"

text \<open>
  The part from line 750 on: \<^verbatim>\<open>Chat.updateOne({ _id: chatId }, { $addToSet: ... })\<close>, whose
  filter is the id alone (\<^verbatim>\<open>matchedCount\<close> is 0 when no document has the id), the
  re-read, the population and the events. \<open>chatId\<close> is the string as sent.
\<close>

definition addToGroup_commit :: "string \<Rightarrow> oid list \<Rightarrow> bool \<Rightarrow> world \<Rightarrow> world \<times> response" where
  "addToGroup_commit chatId finalNewMemberIds pop w =
     (case findOneAndUpdate (\<lambda>c. chat_id c = canon chatId)
             (\<lambda>c. c\<lparr>users := addToSet (users c) finalNewMemberIds\<rparr>) (chats w) of
        (None, _) \<Rightarrow> (w, fail 404 ''Chat not found during update.'')
      | (Some _, cs') \<Rightarrow>
          let w1 = w\<lparr>chats := cs'\<rparr>;
              chatAfterUpdate = findById (canon chatId) (chats w1)
          in (case populateChat pop chatAfterUpdate of
                None \<Rightarrow> (w1, json 200 True
                  ''Added member(s), but failed to refresh full details.'' chatAfterUpdate)
              | Some updatedChat \<Rightarrow>
                  (foldl (\<lambda>w' newMemberId. emit (Room newMemberId) (AddedToGroup updatedChat) w')
                     (emit (Room chatId) (GroupUpdated updatedChat) w1) finalNewMemberIds,
                   json 200 True ''Successfully added member(s).'' (Some updatedChat))))"

text \<open>One request served with no other request in between.\<close>

definition addToGroup ::
  "oid option \<Rightarrow> id_field \<Rightarrow> id_field list option \<Rightarrow> bool \<Rightarrow> world \<Rightarrow> world \<times> response" where
  "addToGroup requesterId chatId userIds pop w =
     (case addToGroup_check requesterId chatId userIds w of
        Inl res \<Rightarrow> (w, res)
      | Inr finalNewMemberIds \<Rightarrow> addToGroup_commit (raw_id chatId) finalNewMemberIds pop w)"

text \<open>
  \<^verbatim>\<open>removeFromGroup\<close> (chatController.js:829) reads with \<^verbatim>\<open>findById\<close>, checks, then
  writes. \<open>removeFromGroup_check\<close> is the part up to line 942; it answers early or lets
  the removal go on. \<^verbatim>\<open>userToRemoveId\<close> is the string as sent: the tests of self-removal
  (line 887) and of membership (line 907) compare it with \<^verbatim>\<open>toString()\<close> values.
\<close>

definition removeFromGroup_check ::
  "oid option \<Rightarrow> id_field \<Rightarrow> id_field \<Rightarrow> world \<Rightarrow> response + unit" where
  "removeFromGroup_check requesterId chatId userId w =
     (if requesterId = None then Inl (fail 401 ''Not authenticated'')
      else if chatId = Absent \<or> userId = Absent
      then Inl (fail 400 ''Chat ID and User ID to remove are required'')
      else if \<not> isValid chatId \<or> \<not> isValid userId
      then Inl (fail 400 ''Invalid ID format provided.'')
      else
        case findById (the_id chatId) (chats w) of
          None \<Rightarrow> Inl (fail 404 ''Chat not found'')
        | Some chat \<Rightarrow>
            if \<not> isGroupChat chat
            then Inl (fail 400 ''Cannot remove members from a non-group chat'')
            else
              let userToRemoveId = raw_id userId;
                  requesterIdString = the requesterId;
                  isAdmin = (groupAdmin chat = Some requesterIdString);
                  isSelfRemoval = (userToRemoveId = requesterIdString)
              in if \<not> isAdmin \<and> \<not> isSelfRemoval
                 then Inl (fail 403 ''Only admins can remove other users.'')
                 else if \<not> (\<exists>u \<in> set (users chat). u = userToRemoveId)
                 then Inl (fail 400 ''User specified is not a member of this group.'')
                 else if isAdmin \<and> isSelfRemoval \<and> length (users chat) > 1
                 then Inl (fail 400 ''Admin must transfer ownership before leaving the group.'')
                 else Inr ())"

text \<open>
  The part from line 949 on: \<^verbatim>\<open>Chat.findByIdAndUpdate(chatId, { $pull: ... })\<close>, whose
  filter is the id alone and which casts the id to pull; the two events; and the sockets
  of the removed user's room leaving the chat room. \<open>chatId\<close> and \<open>userToRemoveId\<close> are
  the strings as sent.
\<close>

definition removeFromGroup_commit ::
  "oid option \<Rightarrow> string \<Rightarrow> string \<Rightarrow> bool \<Rightarrow> world \<Rightarrow> world \<times> response" where
  "removeFromGroup_commit requesterId chatId userToRemoveId pop w =
     (case findOneAndUpdate (\<lambda>c. chat_id c = canon chatId)
             (\<lambda>c. c\<lparr>users := pull (canon userToRemoveId) (users c)\<rparr>) (chats w) of
        (None, _) \<Rightarrow> (w, fail 404 ''Chat not found during removal update.'')
      | (Some updateResult, cs') \<Rightarrow>
          let w1 = w\<lparr>chats := cs'\<rparr> in
          (case populateChat pop (Some updateResult) of
             None \<Rightarrow> (w1, json 200 True
               ''User removed, but failed to refresh group details.'' (Some updateResult))
           | Some updatedChat \<Rightarrow>
               let w2 = emit (Room userToRemoveId)
                          (RemovedFromGroup chatId (chatName updatedChat)) w1;
                   w3 = emit (Room chatId) (UserLeftGroup updatedChat) w2;
                   w4 = w3\<lparr>rooms := (\<lambda>s. if userToRemoveId \<in> rooms w3 s
                                            then rooms w3 s - {chatId} else rooms w3 s)\<rparr>
               in (w4, json 200 True
                     (if Some userToRemoveId = requesterId then ''You have left the group.''
                      else ''User removed successfully.'') (Some updatedChat))))"

definition removeFromGroup ::
  "oid option \<Rightarrow> id_field \<Rightarrow> id_field \<Rightarrow> bool \<Rightarrow> world \<Rightarrow> world \<times> response" where
  "removeFromGroup requesterId chatId userId pop w =
     (case removeFromGroup_check requesterId chatId userId w of
        Inl res \<Rightarrow> (w, res)
      | Inr _ \<Rightarrow> removeFromGroup_commit requesterId (raw_id chatId) (raw_id userId) pop w)"

text \<open>
  \<^verbatim>\<open>transferAdmin\<close> (chatController.js:1061): one \<^verbatim>\<open>findOneAndUpdate\<close> whose filter names
  the id, the group flag, the admin and the membership of the new admin. The test of
  line 1087 and the membership test of line 1127 compare the string as sent.
\<close>

definition transferAdmin ::
  "oid option \<Rightarrow> id_field \<Rightarrow> id_field \<Rightarrow> bool \<Rightarrow> world \<Rightarrow> world \<times> response" where
  "transferAdmin requesterId chatId newAdminId pop w =
     (if requesterId = None then (w, fail 401 ''Not authenticated'')
      else if chatId = Absent \<or> newAdminId = Absent
      then (w, fail 400 ''Chat ID and new admin ID required'')
      else if \<not> isValid chatId \<or> \<not> isValid newAdminId
      then (w, fail 400 ''Invalid ID format.'')
      else if the requesterId = raw_id newAdminId
      then (w, fail 400 ''Cannot transfer admin role to yourself.'')
      else
        let cid = the_id chatId; rid = the requesterId; new = the_id newAdminId in
        case findOneAndUpdate
               (\<lambda>c. chat_id c = cid \<and> isGroupChat c \<and> groupAdmin c = Some rid \<and> new \<in> set (users c))
               (\<lambda>c. c\<lparr>groupAdmin := Some new\<rparr>) (chats w) of
          (None, _) \<Rightarrow>
            (w, case findById cid (chats w) of
                  None \<Rightarrow> fail 404 ''Chat not found''
                | Some chat \<Rightarrow>
                    if \<not> isGroupChat chat then fail 400 ''Not a group chat''
                    else if groupAdmin chat \<noteq> Some rid
                    then fail 403 ''Only the current admin can transfer the role.''
                    else if \<not> (\<exists>u \<in> set (users chat). u = raw_id newAdminId)
                    then fail 400 ''The selected user is not a member of this group.''
                    else fail 500 ''Failed to transfer admin role.'')
        | (Some updatedChatRaw, cs') \<Rightarrow>
            let w1 = w\<lparr>chats := cs'\<rparr> in
            (case populateChat pop (Some updatedChatRaw) of
               None \<Rightarrow> (w1, json 200 True
                 ''Admin role transferred, but failed to refresh details.'' (Some updatedChatRaw))
             | Some updatedChat \<Rightarrow>
                 (emit (Room (raw_id chatId)) (GroupUpdated updatedChat) w1,
                  json 200 True ''Admin role transferred successfully.'' (Some updatedChat))))"

text \<open>
  \<^verbatim>\<open>deleteGroup\<close> (chatController.js:1373). The chat id is a route parameter. The event
  is emitted and the room emptied first (line 1433: ``Emit BEFORE deleting from DB''),
  then the chat and its messages are deleted.
\<close>

definition deleteGroup :: "oid option \<Rightarrow> id_field \<Rightarrow> world \<Rightarrow> world \<times> response" where
  "deleteGroup requesterId chatId w =
     (if requesterId = None then (w, fail 401 ''Not authenticated'')
      else if \<not> isValid chatId then (w, fail 400 ''Invalid Chat ID format'')
      else
        let cid = the_id chatId; rid = the requesterId; room = raw_id chatId in
        case findOne (\<lambda>c. chat_id c = cid \<and> isGroupChat c \<and> groupAdmin c = Some rid) (chats w) of
          None \<Rightarrow>
            (w, classify_failure cid rid ''Group chat not found.''
                  ''Cannot delete a non-group chat this way.''
                  ''Only the group admin can delete the group.''
                  ''Failed to verify group/admin status for deletion.'' (chats w))
        | Some chat \<Rightarrow>
            let w1 = emit (Room room) (GroupDeleted room (chatName chat)) w;
                w2 = w1\<lparr>rooms := (\<lambda>s. rooms w1 s - {room})\<rparr>;
                w3 = w2\<lparr>chats := delete_first (\<lambda>c. chat_id c = cid) (chats w2)\<rparr>;
                w4 = w3\<lparr>messages := filter (\<lambda>m. msg_chat m \<noteq> cid) (messages w3)\<rparr>
            in (w4, json 200 True ''Group chat deleted successfully.'' None))"

section \<open>\<^verbatim>\<open>controllers/messageController.js\<close>\<close>

text \<open>
  \<^verbatim>\<open>sendMessage\<close> (line 1690 of the controllers file). The route is behind \<^verbatim>\<open>protect\<close>, so
  the requester is known. The result is the status code. A malformed chat id makes the
  first query throw a cast error, which the error handler answers with 404; the schema
  trims the content and requires it, so that a blank content fails the validation of
  \<^verbatim>\<open>Message.create\<close> inside the \<^verbatim>\<open>try\<close> (500); \<open>newId\<close> is the id of the new message.
\<close>

definition sendMessage :: "oid \<Rightarrow> string option \<Rightarrow> id_field \<Rightarrow> oid \<Rightarrow> world \<Rightarrow> world \<times> nat" where
  "sendMessage requesterId body chatId newId w =
     (if \<not> truthy body \<or> chatId = Absent then (w, 400)
      else if \<not> isValid chatId then (w, 404)
      else
        let cid = the_id chatId in
        case findOne (\<lambda>c. chat_id c = cid \<and> requesterId \<in> set (users c)) (chats w) of
          None \<Rightarrow> (w, 403)
        | Some chatExists \<Rightarrow>
            if trim (the body) = [] \<or> newId \<in> msg_id ` set (messages w) then (w, 500)
            else
              let msg = \<lparr>msg_id = newId, sender = requesterId, content = trim (the body),
                           msg_chat = cid\<rparr>;
                  w1 = w\<lparr>messages := messages w @ [msg]\<rparr>
              in (case findById cid (chats w1) of
                    None \<Rightarrow> (w1, 500)
                  | Some _ \<Rightarrow>
                      let w2 = w1\<lparr>chats := update_first (\<lambda>c. chat_id c = cid)
                                   (\<lambda>c. c\<lparr>latestMessage := Some newId\<rparr>) (chats w1)\<rparr>;
                          w3 = emit (Room (raw_id chatId)) (MessageReceived msg) w2;
                          w4 = emit (Room (raw_id chatId)) (LatestMessageUpdate msg) w3
                      in (w4, 201)))"

text \<open>
  The events emitted between two states, each with its addressee, in order.
\<close>

definition emitted :: "world \<Rightarrow> world \<Rightarrow> (target \<times> event) list" where
  "emitted w w' = map (\<lambda>e. (em_to e, em_event e)) (drop (length (outbox w)) (outbox w'))"

subsection \<open>The presence registry as the specification words it\<close>

text \<open>
  The specification's registry keeps, for each identity, the set of its registered
  connections: \<^verbatim>\<open>register\<close> adds the connection to the identity's set, \<^verbatim>\<open>unregister\<close>
  removes the connection from whatever identity holds it. \<open>spec_registered\<close> follows
  these words; \<open>run_ops\<close> runs the same operations through the handlers of the source.
\<close>

datatype reg_op = Register string sid | Unregister sid

fun spec_step :: "(string \<Rightarrow> sid set) \<Rightarrow> reg_op \<Rightarrow> (string \<Rightarrow> sid set)" where
  "spec_step m (Register u c) = m(u := insert c (m u))"
| "spec_step m (Unregister c) = (\<lambda>u. m u - {c})"

definition spec_registered :: "reg_op list \<Rightarrow> string \<Rightarrow> sid set" where
  "spec_registered ops = foldl spec_step (\<lambda>_. {}) ops"

fun run_op :: "world \<Rightarrow> reg_op \<Rightarrow> world" where
  "run_op w (Register u c) = on_setup c (Some \<lparr>ud_id = Some u, ud_name = None\<rparr>) w"
| "run_op w (Unregister c) = on_disconnect c w"

definition run_ops :: "reg_op list \<Rightarrow> world" where
  "run_ops ops = foldl run_op world0 ops"

text \<open>
  The registry of one connection per identity: \<^verbatim>\<open>register\<close> makes the connection the
  one of the identity, in place of the one it had; \<^verbatim>\<open>unregister\<close> clears the identity
  that holds the connection.
\<close>

fun last_step :: "(string \<Rightarrow> sid option) \<Rightarrow> reg_op \<Rightarrow> (string \<Rightarrow> sid option)" where
  "last_step m (Register u c) = m(u \<mapsto> c)"
| "last_step m (Unregister c) = (\<lambda>u. if m u = Some c then None else m u)"

definition last_registered :: "reg_op list \<Rightarrow> string \<Rightarrow> sid option" where
  "last_registered ops = foldl last_step (\<lambda>_. None) ops"

text \<open>
  The relation kept between the operations run, the own properties of \<^verbatim>\<open>onlineUsers\<close>
  and that registry: they agree on every key that \<^verbatim>\<open>setup\<close> can store, and every
  property stored comes from a \<^verbatim>\<open>register\<close> of the run.
\<close>

definition registry_inv :: "reg_op list \<Rightarrow> (string \<times> sid) list \<Rightarrow> (string \<Rightarrow> sid option) \<Rightarrow> bool" where
  "registry_inv ops ps m \<longleftrightarrow>
     (\<forall>k. k \<noteq> [] \<longrightarrow> k \<noteq> ''__proto__'' \<longrightarrow> obj_get ps k = m k)
     \<and> (\<forall>k c. obj_get ps k = Some c \<longrightarrow> Register k c \<in> set ops)
     \<and> obj_get ps [] = None"

subsection \<open>Observations on emitted events\<close>

text \<open>The sockets that an event sent with \<^verbatim>\<open>io.to(room)\<close> reaches: those in the room.\<close>

definition in_room :: "world \<Rightarrow> string \<Rightarrow> sid set" where
  "in_room w room = {s. room \<in> rooms w s}"


text \<open>
  The emissions made between two states, and the property that each of them was made
  when the persisted collections were already those of the second state: no write
  follows an emission.
\<close>

definition fresh :: "world \<Rightarrow> world \<Rightarrow> emission list" where
  "fresh w w' = drop (length (outbox w)) (outbox w')"

definition emitted_after_commit :: "world \<Rightarrow> world \<Rightarrow> bool" where
  "emitted_after_commit w w' = (\<forall>e \<in> set (fresh w w'). em_store e = (chats w', messages w'))"

text \<open>The direct conversations between two identities, as \<^verbatim>\<open>accessChat\<close> looks them up.\<close>

definition direct_between :: "oid \<Rightarrow> oid \<Rightarrow> chat list \<Rightarrow> chat list" where
  "direct_between a b cs = filter (direct_query a b) cs"

text \<open>The document that \<^verbatim>\<open>accessChat\<close> inserts (\<^verbatim>\<open>newChatData\<close> with its \<^verbatim>\<open>_id\<close>).\<close>

definition direct_chat :: "oid \<Rightarrow> oid \<Rightarrow> oid \<Rightarrow> chat" where
  "direct_chat n a b = \<lparr>chat_id = n, chatName = ''sender'', isGroupChat = False,
     users = [a, b], latestMessage = None, groupAdmin = None, about = [], groupPic = []\<rparr>"

section \<open>Example states\<close>

text \<open>A server on which the identity \<^verbatim>\<open>alice\<close> has completed setup on socket \<^verbatim>\<open>s1\<close>.\<close>

definition w_alice :: world where
  "w_alice = on_setup ''s1'' (Some \<lparr>ud_id = Some ''alice'', ud_name = Some ''Alice''\<rparr>)
               (on_connection ''s1'' world0)"

text \<open>The same with a second socket \<^verbatim>\<open>s2\<close>, on which \<^verbatim>\<open>bob\<close> has completed setup.\<close>

definition w_call :: world where
  "w_call = on_setup ''s2'' (Some \<lparr>ud_id = Some ''bob'', ud_name = Some ''Bob''\<rparr>)
              (on_connection ''s2'' w_alice)"

text \<open>
  A store with the users \<^verbatim>\<open>a\<close> to \<^verbatim>\<open>e\<close> and one group of \<open>a\<close>, \<open>b\<close> and \<open>c\<close> whose admin
  is \<open>a\<close>; the same with a group of five; and with a group whose admin is its only member.
\<close>

definition group_of :: "oid list \<Rightarrow> chat" where
  "group_of us = \<lparr>chat_id = ''g1'', chatName = ''Team'', isGroupChat = True, users = us,
     latestMessage = None, groupAdmin = Some ''a'', about = [], groupPic = []\<rparr>"

definition w_group :: "oid list \<Rightarrow> world" where
  "w_group us = world0\<lparr>chats := [group_of us], userColl := [''a'', ''b'', ''c'', ''d'', ''e'']\<rparr>"

definition w_team :: world where
  "w_team = w_group [''a'', ''b'', ''c'']"

text \<open>
  The store of \<open>w_team\<close> after \<open>a\<close> created a second group naming \<open>b\<close> and its own id spelled
  in upper case, and the same after \<open>a\<close> removed \<open>b\<close> from that group.
\<close>

definition w_crew :: world where
  "w_crew = fst (createGroupChat (Some ''a'') (Some ''Crew'') (Some [Id ''A'', Id ''b''])
              None ''g2'' True w_team)"

definition w_crew_left :: world where
  "w_crew_left = fst (removeFromGroup (Some ''a'') (Id ''g2'') (Id ''b'') True w_crew)"

section \<open>Properties of the socket handlers\<close>

lemma obj_get_own_set:
  "obj_get (own_set ps k v) k' = (if k' = k then Some v else obj_get ps k')"
  by (induction ps) auto

lemma obj_get_obj_set:
  "obj_get (obj_set ps k v) k' =
     (if k' = k \<and> k \<noteq> ''__proto__'' then Some v else obj_get ps k')"
  by (simp add: obj_set_def obj_get_own_set)

lemma obj_get_obj_delete:
  "obj_get (obj_delete ps k) k' = (if k' = k then None else obj_get ps k')"
  by (induction ps) auto

lemma set_Object_keys: "set (Object_keys obj) = fst ` set obj"
  unfolding Object_keys_def Let_def by auto

lemma obj_get_None_iff: "obj_get ps k = None \<longleftrightarrow> k \<notin> fst ` set ps"
  by (induction ps) (auto split: if_splits)

lemma obj_lookup_Str: "obj_lookup ps k = Str c \<longleftrightarrow> obj_get ps k = Some c"
  by (simp add: obj_lookup_def split: option.splits)

lemma obj_lookup_Undefined:
  "obj_lookup ps k = Undefined \<longleftrightarrow> obj_get ps k = None \<and> k \<notin> set proto_names"
  by (simp add: obj_lookup_def split: option.splits)

lemma resolve_own: "resolve w u = obj_get (onlineUsers w) u"
  by (simp add: resolve_def obj_lookup_def split: option.splits)

lemma isOnline_own:
  "isOnline w u \<longleftrightarrow> obj_get (onlineUsers w) u \<noteq> None \<or> u \<in> set proto_names"
  by (auto simp: isOnline_def obj_lookup_Undefined)

lemma getUserIdFromSocketId_Some:
  "getUserIdFromSocketId obj s = Some u \<Longrightarrow> obj_get obj u = Some s"
  unfolding getUserIdFromSocketId_def by (auto simp: find_Some_iff obj_lookup_Str)

lemma getUserIdFromSocketId_None:
  "getUserIdFromSocketId obj s = None \<longleftrightarrow> (\<forall>u. obj_get obj u \<noteq> Some s)"
proof -
  have "obj_get obj u = Some s \<Longrightarrow> u \<in> set (Object_keys obj)" for u
    using obj_get_None_iff [of obj u] by (auto simp: set_Object_keys)
  then show ?thesis
    unfolding getUserIdFromSocketId_def find_None_iff obj_lookup_Str by blast
qed

lemma onlineUsers_on_setup:
  "onlineUsers (on_setup c (Some \<lparr>ud_id = Some u, ud_name = n\<rparr>) w) =
     (if u = [] then onlineUsers w else obj_set (onlineUsers w) u c)"
  by (simp add: on_setup_def emit_def join_def Let_def)

lemma onlineUsers_on_disconnect:
  "onlineUsers (on_disconnect c w) =
     (case getUserIdFromSocketId (onlineUsers w) c of
        None \<Rightarrow> onlineUsers w
      | Some k \<Rightarrow> if k = [] then onlineUsers w else obj_delete (onlineUsers w) k)"
  by (simp add: on_disconnect_def emit_def Let_def split: option.splits)

lemma emitted_emit: "emitted w (emit t e w) = [(t, e)]"
  by (simp add: emitted_def emit_def)

lemma emitted_same: "emitted w w = []"
  by (simp add: emitted_def)

lemmas handler_defs =
  on_connection_def on_setup_def on_disconnect_def on_call_user_def on_call_accepted_def
  on_signal_def on_call_ended_def resolve_def isOnline_def obj_lookup_def obj_set_def
  proto_names_def emit_def join_def emitted_def
  socket_user_id_def world0_def Object_keys_def is_array_index_def is_digit_def
  getUserIdFromSocketId_def run_ops_def spec_registered_def last_registered_def Let_def

text \<open>
  Claim C10. A \<^verbatim>\<open>setup\<close> event whose payload is missing, or whose \<^verbatim>\<open>_id\<close> is missing or
  empty, changes nothing: the socket joins no room, no \<^verbatim>\<open>connected\<close> and no
  \<^verbatim>\<open>get online users\<close> event is emitted, and \<^verbatim>\<open>onlineUsers\<close> is as before.
\<close>

theorem setup_without_identity_ignored:
  assumes "userData = None \<or> (\<exists>ud. userData = Some ud \<and> \<not> truthy (ud_id ud))"
  shows "on_setup sock userData w = w
       \<and> rooms (on_setup sock userData w) = rooms w
       \<and> emitted w (on_setup sock userData w) = []
       \<and> onlineUsers (on_setup sock userData w) = onlineUsers w"
proof -
  have "on_setup sock userData w = w"
    using assms by (auto simp: on_setup_def truthy_def split: option.splits)
  then show ?thesis by (simp add: emitted_same)
qed

theorem setup_without_identity_ignored_witness:
  "on_setup ''s1'' None world0 = world0
   \<and> on_setup ''s1'' (Some \<lparr>ud_id = None, ud_name = Some ''Ann''\<rparr>) world0 = world0
   \<and> emitted world0 (on_setup ''s1'' (Some \<lparr>ud_id = Some [], ud_name = None\<rparr>) world0) = []"
  using setup_without_identity_ignored [of None "''s1''" world0]
    setup_without_identity_ignored
      [of "Some \<lparr>ud_id = None, ud_name = Some ''Ann''\<rparr>" "''s1''" world0]
    setup_without_identity_ignored [of "Some \<lparr>ud_id = Some [], ud_name = None\<rparr>" "''s1''" world0]
  by (simp add: truthy_def emitted_same)

subsection \<open>The signalling relay\<close>

lemma relay_offline:
  "\<not> isOnline w t \<Longrightarrow> obj_lookup (onlineUsers w) t = Undefined"
  by (simp add: isOnline_def)

lemma relay_online:
  "resolve w t = Some c \<Longrightarrow> obj_lookup (onlineUsers w) t = Str c"
  by (simp add: resolve_def split: jsval.splits)

lemma w_call_facts:
  "resolve w_call ''alice'' = Some ''s1''" "\<not> isOnline w_call ''carol''"
  "socket_user_id w_call ''s2'' = Some ''bob''"
  "''s1'' \<in> rooms w_call ''s1''" "\<forall>s. ''s1'' \<in> rooms w_call s \<longrightarrow> s = ''s1''"
  by (simp_all add: w_call_def w_alice_def handler_defs)

text \<open>
  Claim C9, as stated: the forwarded payload is augmented with the sender's identity.
  It fails for \<^verbatim>\<open>call-user\<close>: the \<^verbatim>\<open>from\<close> that is forwarded is the field of the message
  (server.js:157-166), written by the client. The socket \<^verbatim>\<open>s2\<close>, set up as \<^verbatim>\<open>bob\<close>, calls
  \<^verbatim>\<open>alice\<close> with \<^verbatim>\<open>from: carol\<close>, and \<^verbatim>\<open>carol\<close> is what \<^verbatim>\<open>alice\<close> is sent.
\<close>

theorem forwarded_from_is_client_written_counterexample:
  "emitted w_call (on_call_user ''s2''
        \<lparr>userToCall = ''alice'', signalData = Some ''sdp'', cu_from = Some ''carol'',
         cu_name = Some ''Carol'', callType = Some ''video''\<rparr> w_call)
     \<noteq> [(Room ''s1'', CallIncoming (Some ''sdp'') (socket_user_id w_call ''s2'') (Some ''Carol'')
           (Some ''video''))]
   \<and> socket_user_id w_call ''s2'' = Some ''bob''"
  by (simp add: w_call_def w_alice_def handler_defs)

text \<open>
  Claim C9, amended. For each of the four signalling messages: when the lookup of the
  target in the registry gives nothing, the handler leaves the state as it is, so that
  nothing is emitted, to the sender or to anyone. When the registry holds the connection
  \<open>c\<close> for the target, the handler emits exactly one event, addressed to the room of \<open>c\<close>;
  it reaches \<open>c\<close> and no other connection when \<open>c\<close> is in its own room and no other
  socket has joined that room. The event carries the payload. Its \<^verbatim>\<open>from\<close> is, for
  \<^verbatim>\<open>call-accepted\<close>, \<^verbatim>\<open>signal\<close> and \<^verbatim>\<open>call-ended\<close>, the identity that the sending
  connection gave in its setup (none if it gave none); for \<^verbatim>\<open>call-user\<close> it is, with the
  name and the call type, the field of the message as the client wrote it.
\<close>

theorem relay_drops_offline_forwards_online:
  "(\<not> isOnline w (userToCall m) \<longrightarrow> on_call_user sock m w = w)
   \<and> (\<not> isOnline w (rm_to r) \<longrightarrow> on_call_accepted sock r w = w \<and> on_signal sock r w = w)
   \<and> (\<not> isOnline w t \<longrightarrow> on_call_ended sock t w = w)
   \<and> (resolve w (userToCall m) = Some c \<longrightarrow>
        emitted w (on_call_user sock m w) =
          [(Room c, CallIncoming (signalData m) (cu_from m) (cu_name m) (callType m))])
   \<and> (resolve w (rm_to r) = Some c \<longrightarrow>
        emitted w (on_call_accepted sock r w) =
          [(Room c, CallAccepted (rm_signal r) (socket_user_id w sock))]
        \<and> emitted w (on_signal sock r w) =
          [(Room c, SignalEv (rm_signal r) (socket_user_id w sock))])
   \<and> (resolve w t = Some c \<longrightarrow>
        emitted w (on_call_ended sock t w) = [(Room c, CallEnded (socket_user_id w sock))])
   \<and> (socketUserData w sock = Some ud \<longrightarrow> socket_user_id w sock = ud_id ud)
   \<and> (ud_id ud = Some uid \<and> uid \<noteq> [] \<longrightarrow>
        socket_user_id (on_setup sock (Some ud) w) sock = Some uid)
   \<and> (c \<in> rooms w c \<and> (\<forall>s. c \<in> rooms w s \<longrightarrow> s = c) \<longrightarrow> in_room w c = {c})"
proof -
  have a: "on_call_user sock m w = w" if "\<not> isOnline w (userToCall m)"
    using relay_offline [OF that] by (simp add: on_call_user_def)
  have b: "on_call_accepted sock r w = w \<and> on_signal sock r w = w" if "\<not> isOnline w (rm_to r)"
    using relay_offline [OF that] by (simp add: on_call_accepted_def on_signal_def)
  have c: "on_call_ended sock t w = w" if "\<not> isOnline w t"
    using relay_offline [OF that] by (simp add: on_call_ended_def)
  have d: "emitted w (on_call_user sock m w) =
          [(Room c, CallIncoming (signalData m) (cu_from m) (cu_name m) (callType m))]"
    if "resolve w (userToCall m) = Some c"
    using relay_online [OF that] by (simp add: on_call_user_def emitted_emit)
  have e: "emitted w (on_call_accepted sock r w) =
          [(Room c, CallAccepted (rm_signal r) (socket_user_id w sock))]
        \<and> emitted w (on_signal sock r w) =
          [(Room c, SignalEv (rm_signal r) (socket_user_id w sock))]"
    if "resolve w (rm_to r) = Some c"
    using relay_online [OF that] by (simp add: on_call_accepted_def on_signal_def emitted_emit)
  have f: "emitted w (on_call_ended sock t w) = [(Room c, CallEnded (socket_user_id w sock))]"
    if "resolve w t = Some c"
    using relay_online [OF that] by (simp add: on_call_ended_def emitted_emit)
  have g: "socket_user_id w sock = ud_id ud" if "socketUserData w sock = Some ud"
    using that by (simp add: socket_user_id_def)
  have h: "socket_user_id (on_setup sock (Some ud) w) sock = Some uid"
    if "ud_id ud = Some uid \<and> uid \<noteq> []"
    using that by (simp add: socket_user_id_def on_setup_def emit_def join_def Let_def)
  have i: "in_room w c = {c}" if "c \<in> rooms w c \<and> (\<forall>s. c \<in> rooms w s \<longrightarrow> s = c)"
    using that by (auto simp: in_room_def)
  from a b c d e f g h i show ?thesis by blast
qed

theorem relay_drops_offline_forwards_online_witness:
  "resolve w_call ''alice'' = Some ''s1''
   \<and> emitted w_call (on_call_accepted ''s2'' \<lparr>rm_to = ''alice'', rm_signal = Some ''sdp''\<rparr> w_call)
       = [(Room ''s1'', CallAccepted (Some ''sdp'') (Some ''bob''))]
   \<and> emitted w_call (on_call_ended ''s2'' ''alice'' w_call)
       = [(Room ''s1'', CallEnded (Some ''bob''))]
   \<and> in_room w_call ''s1'' = {''s1''}
   \<and> \<not> isOnline w_call ''carol''
   \<and> on_call_user ''s2''
        \<lparr>userToCall = ''carol'', signalData = Some ''sdp'', cu_from = Some ''bob'',
         cu_name = Some ''Bob'', callType = Some ''video''\<rparr> w_call = w_call
   \<and> on_signal ''s2'' \<lparr>rm_to = ''carol'', rm_signal = Some ''ice''\<rparr> w_call = w_call"
  using relay_drops_offline_forwards_online [where w = w_call and sock = "''s2''"
      and m = "\<lparr>userToCall = ''carol'', signalData = Some ''sdp'', cu_from = Some ''bob'',
         cu_name = Some ''Bob'', callType = Some ''video''\<rparr>"
      and r = "\<lparr>rm_to = ''alice'', rm_signal = Some ''sdp''\<rparr>" and t = "''alice''"
      and c = "''s1''"]
    relay_drops_offline_forwards_online [where w = w_call and sock = "''s2''"
      and r = "\<lparr>rm_to = ''carol'', rm_signal = Some ''ice''\<rparr>"]
    w_call_facts
  by simp

subsection \<open>The presence registry\<close>

text \<open>
  Claim C2, as stated: after any sequence of register and unregister operations the
  registry gives, for an identity, the set of all its registered connections, a second
  registration adding to the set. It fails on the source: \<^verbatim>\<open>onlineUsers\<close> holds one socket
  id per identity (server.js:40, 113), and the second \<^verbatim>\<open>setup\<close> overwrites the first.
\<close>

theorem second_setup_replaces_counterexample:
  "set_option (resolve (run_ops [Register ''alice'' ''s1'', Register ''alice'' ''s2'']) ''alice'')
     \<noteq> spec_registered [Register ''alice'' ''s1'', Register ''alice'' ''s2''] ''alice''"
  by (simp add: handler_defs)

text \<open>
  The same on \<^verbatim>\<open>isOnline\<close>: when the second socket disconnects the identity is reported
  offline, while its first socket is still registered in the specification's sense.
\<close>

lemma offline_with_live_connection:
  "\<not> isOnline (run_ops [Register ''alice'' ''s1'', Register ''alice'' ''s2'', Unregister ''s2''])
       ''alice''
   \<and> spec_registered [Register ''alice'' ''s1'', Register ''alice'' ''s2'', Unregister ''s2'']
       ''alice'' = {''s1''}"
  by (simp add: handler_defs)

lemma run_ops_snoc: "run_ops (ops @ [x]) = run_op (run_ops ops) x"
  by (simp add: run_ops_def)

lemma last_registered_snoc: "last_registered (ops @ [x]) = last_step (last_registered ops) x"
  by (simp add: last_registered_def)

lemma registry_inv_register:
  assumes "registry_inv ops ps m"
  shows "registry_inv (ops @ [Register u c]) (if u = [] then ps else obj_set ps u c) (m(u \<mapsto> c))"
proof -
  from assms have I1: "\<And>k. k \<noteq> [] \<Longrightarrow> k \<noteq> ''__proto__'' \<Longrightarrow> obj_get ps k = m k"
    and I2: "\<And>k c. obj_get ps k = Some c \<Longrightarrow> Register k c \<in> set ops"
    and I3: "obj_get ps [] = None"
    unfolding registry_inv_def by blast+
  show ?thesis
  proof (cases "u = []")
    case True
    with I1 I2 I3 show ?thesis unfolding registry_inv_def by simp
  next
    case False
    have g: "obj_get (obj_set ps u c) k =
               (if k = u \<and> u \<noteq> ''__proto__'' then Some c else obj_get ps k)" for k
      by (rule obj_get_obj_set)
    have "obj_get (obj_set ps u c) k = (m(u \<mapsto> c)) k" if "k \<noteq> []" "k \<noteq> ''__proto__''" for k
      using I1 [OF that] that by (simp add: g)
    moreover have "Register k c' \<in> set (ops @ [Register u c])"
      if "obj_get (obj_set ps u c) k = Some c'" for k c'
      using that I2 [of k c'] by (simp add: g split: if_splits)
    moreover have "obj_get (obj_set ps u c) [] = None"
      using False I3 by (simp add: g)
    ultimately show ?thesis using False unfolding registry_inv_def by simp
  qed
qed

lemma registry_inv_unregister:
  assumes "registry_inv ops ps m"
    and single: "\<forall>u u' c. Register u c \<in> set ops \<longrightarrow> Register u' c \<in> set ops \<longrightarrow> u = u'"
  shows "registry_inv (ops @ [Unregister c])
           (case getUserIdFromSocketId ps c of
              None \<Rightarrow> ps | Some k \<Rightarrow> if k = [] then ps else obj_delete ps k)
           (\<lambda>u. if m u = Some c then None else m u)"
proof -
  from assms(1) have I1: "\<And>k. k \<noteq> [] \<Longrightarrow> k \<noteq> ''__proto__'' \<Longrightarrow> obj_get ps k = m k"
    and I2: "\<And>k c. obj_get ps k = Some c \<Longrightarrow> Register k c \<in> set ops"
    and I3: "obj_get ps [] = None"
    unfolding registry_inv_def by blast+
  show ?thesis
  proof (cases "getUserIdFromSocketId ps c")
    case None
    then have no: "obj_get ps k \<noteq> Some c" for k
      by (simp add: getUserIdFromSocketId_None)
    have "obj_get ps k = (if m k = Some c then None else m k)"
      if "k \<noteq> []" "k \<noteq> ''__proto__''" for k
      using I1 [OF that] no [of k] by simp
    with None I2 I3 show ?thesis unfolding registry_inv_def by simp
  next
    case (Some k0)
    then have k0: "obj_get ps k0 = Some c" by (rule getUserIdFromSocketId_Some)
    with I3 have ne: "k0 \<noteq> []" by auto
    have uniq: "k = k0" if "obj_get ps k = Some c" for k
      using I2 [OF that] I2 [OF k0] single by blast
    have g: "obj_get (obj_delete ps k0) k = (if k = k0 then None else obj_get ps k)" for k
      by (rule obj_get_obj_delete)
    have "obj_get (obj_delete ps k0) k = (if m k = Some c then None else m k)"
      if "k \<noteq> []" "k \<noteq> ''__proto__''" for k
    proof (cases "k = k0")
      case True
      with I1 [OF that] k0 show ?thesis by (simp add: g)
    next
      case False
      with uniq [of k] have "obj_get ps k \<noteq> Some c" by blast
      with I1 [OF that] False show ?thesis by (simp add: g)
    qed
    moreover have "Register k c' \<in> set (ops @ [Unregister c])"
      if "obj_get (obj_delete ps k0) k = Some c'" for k c'
      using that I2 [of k c'] by (simp add: g split: if_splits)
    moreover have "obj_get (obj_delete ps k0) [] = None"
      using I3 by (simp add: g)
    ultimately show ?thesis using Some ne unfolding registry_inv_def by simp
  qed
qed


lemma registry_invariant:
  assumes "\<forall>u u' c. Register u c \<in> set ops \<longrightarrow> Register u' c \<in> set ops \<longrightarrow> u = u'"
  shows "registry_inv ops (onlineUsers (run_ops ops)) (last_registered ops)"
  using assms
proof (induction ops rule: rev_induct)
  case Nil
  show ?case by (simp add: registry_inv_def run_ops_def last_registered_def world0_def)
next
  case (snoc x ops)
  from snoc.prems
  have single: "\<forall>u u' c. Register u c \<in> set ops \<longrightarrow> Register u' c \<in> set ops \<longrightarrow> u = u'"
    by simp
  note IH = snoc.IH [OF single]
  show ?case
  proof (cases x)
    case (Register u c)
    have e1: "onlineUsers (run_ops (ops @ [Register u c])) =
                (if u = [] then onlineUsers (run_ops ops)
                 else obj_set (onlineUsers (run_ops ops)) u c)"
      by (simp add: run_ops_snoc onlineUsers_on_setup)
    have e2: "last_registered (ops @ [Register u c]) = (last_registered ops)(u \<mapsto> c)"
      by (simp only: last_registered_snoc last_step.simps)
    show ?thesis
      unfolding Register e1 e2 by (rule registry_inv_register [OF IH])
  next
    case (Unregister c)
    have e1: "onlineUsers (run_ops (ops @ [Unregister c])) =
                (case getUserIdFromSocketId (onlineUsers (run_ops ops)) c of
                   None \<Rightarrow> onlineUsers (run_ops ops)
                 | Some k \<Rightarrow> if k = [] then onlineUsers (run_ops ops)
                            else obj_delete (onlineUsers (run_ops ops)) k)"
      by (simp only: run_ops_snoc run_op.simps onlineUsers_on_disconnect)
    have e2: "last_registered (ops @ [Unregister c]) =
                (\<lambda>u. if last_registered ops u = Some c then None else last_registered ops u)"
      by (simp only: last_registered_snoc last_step.simps)
    show ?thesis
      unfolding Unregister e1 e2 by (rule registry_inv_unregister [OF IH single])
  qed
qed

text \<open>
  Claim C2, amended. Take any sequence of register and unregister operations in which
  no connection registers under two identities, and an identity that is not empty and
  not the name of a property of \<^verbatim>\<open>Object.prototype\<close>. The registry then holds at most one
  connection for the identity: the one registered for it last, which replaces the one
  it had instead of joining it in a set, and none once that connection has unregistered.
  \<open>resolve\<close> returns that connection, and \<open>isOnline\<close> is false exactly when there is none.
\<close>

theorem registry_keeps_last_connection:
  assumes "\<forall>u u' c. Register u c \<in> set ops \<longrightarrow> Register u' c \<in> set ops \<longrightarrow> u = u'"
    and "u \<noteq> []" and "u \<notin> set proto_names"
  shows "resolve (run_ops ops) u = last_registered ops u
       \<and> isOnline (run_ops ops) u = (last_registered ops u \<noteq> None)"
proof -
  from assms(3) have "u \<noteq> ''__proto__''" by (auto simp: proto_names_def)
  with registry_invariant [OF assms(1)] assms(2)
  have "obj_get (onlineUsers (run_ops ops)) u = last_registered ops u"
    unfolding registry_inv_def by blast
  with assms(3) show ?thesis by (simp add: resolve_own isOnline_own)
qed

theorem registry_keeps_last_connection_witness:
  "resolve (run_ops [Register ''alice'' ''s1'', Register ''alice'' ''s2'']) ''alice'' = Some ''s2''
   \<and> last_registered [Register ''alice'' ''s1'', Register ''alice'' ''s2''] ''alice'' = Some ''s2''
   \<and> \<not> isOnline (run_ops [Register ''alice'' ''s1'', Register ''alice'' ''s2'',
          Unregister ''s2'']) ''alice''
   \<and> isOnline (run_ops [Register ''alice'' ''s1'', Register ''bob'' ''s2'',
          Unregister ''s2'']) ''alice''"
proof -
  have p: "''alice'' \<noteq> []" "''alice'' \<notin> set proto_names"
    by (simp_all add: proto_names_def)
  have s1: "\<forall>u u' c. Register u c \<in> set [Register ''alice'' ''s1'', Register ''alice'' ''s2'']
      \<longrightarrow> Register u' c \<in> set [Register ''alice'' ''s1'', Register ''alice'' ''s2''] \<longrightarrow> u = u'"
    by auto
  have s2: "\<forall>u u' c. Register u c \<in> set [Register ''alice'' ''s1'', Register ''alice'' ''s2'',
          Unregister ''s2'']
      \<longrightarrow> Register u' c \<in> set [Register ''alice'' ''s1'', Register ''alice'' ''s2'',
          Unregister ''s2''] \<longrightarrow> u = u'"
    by auto
  have s3: "\<forall>u u' c. Register u c \<in> set [Register ''alice'' ''s1'', Register ''bob'' ''s2'',
          Unregister ''s2'']
      \<longrightarrow> Register u' c \<in> set [Register ''alice'' ''s1'', Register ''bob'' ''s2'',
          Unregister ''s2''] \<longrightarrow> u = u'"
    by auto
  from registry_keeps_last_connection [OF s1 p] registry_keeps_last_connection [OF s2 p]
    registry_keeps_last_connection [OF s3 p]
  show ?thesis by (simp add: last_registered_def)
qed


text \<open>
  Claim C4 on the source. A socket that completes setup as \<^verbatim>\<open>u1\<close> and then as \<^verbatim>\<open>u2\<close> is
  registered under both identities: \<^verbatim>\<open>setup\<close> does not remove the entry the socket had.
  \<^verbatim>\<open>getUserIdFromSocketId\<close> finds one identity per socket, so the disconnect removes
  \<^verbatim>\<open>u1\<close> only and \<^verbatim>\<open>u2\<close> stays registered with a socket that is gone.
\<close>

theorem two_identities_one_socket:
  "resolve (on_setup ''s1'' (Some \<lparr>ud_id = Some ''u2'', ud_name = None\<rparr>)
      (on_setup ''s1'' (Some \<lparr>ud_id = Some ''u1'', ud_name = None\<rparr>)
        (on_connection ''s1'' world0))) ''u1'' = Some ''s1''
 \<and> resolve (on_setup ''s1'' (Some \<lparr>ud_id = Some ''u2'', ud_name = None\<rparr>)
      (on_setup ''s1'' (Some \<lparr>ud_id = Some ''u1'', ud_name = None\<rparr>)
        (on_connection ''s1'' world0))) ''u2'' = Some ''s1''
 \<and> resolve (on_disconnect ''s1''
      (on_setup ''s1'' (Some \<lparr>ud_id = Some ''u2'', ud_name = None\<rparr>)
        (on_setup ''s1'' (Some \<lparr>ud_id = Some ''u1'', ud_name = None\<rparr>)
          (on_connection ''s1'' world0)))) ''u2'' = Some ''s1''"
  by (simp add: handler_defs)

theorem two_identities_one_socket_witness:
  "isOnline (on_disconnect ''s1''
      (on_setup ''s1'' (Some \<lparr>ud_id = Some ''u2'', ud_name = None\<rparr>)
        (on_setup ''s1'' (Some \<lparr>ud_id = Some ''u1'', ud_name = None\<rparr>)
          (on_connection ''s1'' world0)))) ''u2''"
  using two_identities_one_socket by (simp add: isOnline_own resolve_own)

section \<open>Properties of the chat controllers\<close>

subsection \<open>Requests by an identity that is not the admin\<close>

lemma not_success_fail [simp]: "\<not> success (fail st msg)"
  by (simp add: fail_def json_def)

lemma not_success_classify [simp]:
  "\<not> success (classify_failure cid rid a b c d cs)"
  by (simp add: classify_failure_def split: option.splits)

lemma find_no_admin:
  assumes "\<forall>c \<in> set cs. chat_id c = cid \<longrightarrow> groupAdmin c \<noteq> Some r"
  shows "find (\<lambda>c. chat_id c = cid \<and> isGroupChat c \<and> groupAdmin c = Some r \<and> Q c) cs = None"
  using assms by (auto simp: find_None_iff)

lemma find_no_admin':
  assumes "\<forall>c \<in> set cs. chat_id c = cid \<longrightarrow> groupAdmin c \<noteq> Some r"
  shows "find (\<lambda>c. chat_id c = cid \<and> isGroupChat c \<and> groupAdmin c = Some r) cs = None"
  using assms by (auto simp: find_None_iff)

lemma the_id_raw: "isValid f \<Longrightarrow> the_id f = canon (raw_id f)"
  by (cases f) simp_all

lemma admin_update_no_admin:
  assumes "\<forall>c \<in> set (chats w). chat_id c = canon cid \<longrightarrow> groupAdmin c \<noteq> Some r"
  shows "fst (admin_update cid r upd m1 m2 m3 m4 m5 pop w) = w
       \<and> \<not> success (snd (admin_update cid r upd m1 m2 m3 m4 m5 pop w))"
  using find_no_admin' [OF assms]
  by (simp add: admin_update_def findOneAndUpdate_def)

lemma renameGroup_no_admin:
  assumes "\<forall>c \<in> set (chats w). chat_id c = the_id chatId \<longrightarrow> groupAdmin c \<noteq> Some r"
  shows "fst (renameGroup (Some r) chatId name pop w) = w
       \<and> \<not> success (snd (renameGroup (Some r) chatId name pop w))"
proof (cases "isValid chatId")
  case True
  with assms admin_update_no_admin [of w "raw_id chatId" r] show ?thesis
    by (simp add: renameGroup_def the_id_raw)
next
  case False
  then show ?thesis by (simp add: renameGroup_def)
qed

lemma updateGroupAbout_no_admin:
  assumes "\<forall>c \<in> set (chats w). chat_id c = the_id chatId \<longrightarrow> groupAdmin c \<noteq> Some r"
  shows "fst (updateGroupAbout (Some r) chatId txt pop w) = w
       \<and> \<not> success (snd (updateGroupAbout (Some r) chatId txt pop w))"
proof (cases "isValid chatId")
  case True
  with assms admin_update_no_admin [of w "raw_id chatId" r] show ?thesis
    by (simp add: updateGroupAbout_def the_id_raw)
next
  case False
  then show ?thesis by (simp add: updateGroupAbout_def)
qed

lemma updateGroupPic_no_admin:
  assumes "\<forall>c \<in> set (chats w). chat_id c = the_id chatId \<longrightarrow> groupAdmin c \<noteq> Some r"
  shows "fst (updateGroupPic (Some r) chatId pic pop w) = w
       \<and> \<not> success (snd (updateGroupPic (Some r) chatId pic pop w))"
proof (cases "isValid chatId")
  case True
  with assms admin_update_no_admin [of w "raw_id chatId" r] show ?thesis
    by (simp add: updateGroupPic_def the_id_raw)
next
  case False
  then show ?thesis by (simp add: updateGroupPic_def)
qed

lemma transferAdmin_no_admin:
  assumes "\<forall>c \<in> set (chats w). chat_id c = the_id chatId \<longrightarrow> groupAdmin c \<noteq> Some r"
  shows "fst (transferAdmin (Some r) chatId new pop w) = w
       \<and> \<not> success (snd (transferAdmin (Some r) chatId new pop w))"
  using find_no_admin [OF assms, of "\<lambda>c. the_id new \<in> set (users c)"]
  by (simp add: transferAdmin_def findOneAndUpdate_def Let_def split: option.splits)

lemma addToGroup_no_admin:
  assumes "\<forall>c \<in> set (chats w). chat_id c = the_id chatId \<longrightarrow> groupAdmin c \<noteq> Some r"
  shows "fst (addToGroup (Some r) chatId ids pop w) = w
       \<and> \<not> success (snd (addToGroup (Some r) chatId ids pop w))"
  using find_no_admin' [OF assms]
  by (simp add: addToGroup_def addToGroup_check_def findOne_def Let_def)

lemma removeFromGroup_no_admin:
  assumes "\<forall>c \<in> set (chats w). chat_id c = the_id chatId \<longrightarrow> groupAdmin c \<noteq> Some r"
    and "userId \<noteq> Id r"
  shows "fst (removeFromGroup (Some r) chatId userId pop w) = w
       \<and> \<not> success (snd (removeFromGroup (Some r) chatId userId pop w))"
proof (cases "removeFromGroup_check (Some r) chatId userId w")
  case (Inl res)
  then have "\<not> success res"
    by (auto simp: removeFromGroup_check_def Let_def split: if_splits option.splits)
  with Inl show ?thesis by (simp add: removeFromGroup_def)
next
  case (Inr u)
  then obtain c where c: "findById (the_id chatId) (chats w) = Some c" "isValid userId"
    "groupAdmin c = Some r \<or> raw_id userId = r"
    by (auto simp: removeFromGroup_check_def Let_def split: if_splits option.splits)
  from c(1) have "c \<in> set (chats w)" "chat_id c = the_id chatId"
    by (auto simp: findById_def find_Some_iff)
  with assms(1) have "groupAdmin c \<noteq> Some r" by blast
  moreover from c(2) assms(2) have "raw_id userId \<noteq> r" by (cases userId) auto
  ultimately show ?thesis using c(3) by blast
qed

text \<open>
  Claim C5. Let \<open>r\<close> be an identity that is not the admin of the conversation named in
  the request (no document with that id has \<open>r\<close> as its \<^verbatim>\<open>groupAdmin\<close>). Then a rename,
  update-about, update-picture, add-members or transfer-admin request by \<open>r\<close>, and a
  remove-member request by \<open>r\<close> for an identity other than \<open>r\<close>, is answered with a
  failure and leaves the whole state, the persisted conversation included, as it was.
\<close>

theorem non_admin_request_fails_unchanged:
  assumes "\<forall>c \<in> set (chats w). chat_id c = the_id chatId \<longrightarrow> groupAdmin c \<noteq> Some r"
  shows "fst (renameGroup (Some r) chatId name pop w) = w
       \<and> \<not> success (snd (renameGroup (Some r) chatId name pop w))
       \<and> fst (updateGroupAbout (Some r) chatId txt pop w) = w
       \<and> \<not> success (snd (updateGroupAbout (Some r) chatId txt pop w))
       \<and> fst (updateGroupPic (Some r) chatId pic pop w) = w
       \<and> \<not> success (snd (updateGroupPic (Some r) chatId pic pop w))
       \<and> fst (addToGroup (Some r) chatId ids pop w) = w
       \<and> \<not> success (snd (addToGroup (Some r) chatId ids pop w))
       \<and> fst (transferAdmin (Some r) chatId new pop w) = w
       \<and> \<not> success (snd (transferAdmin (Some r) chatId new pop w))
       \<and> (userId \<noteq> Id r \<longrightarrow>
            fst (removeFromGroup (Some r) chatId userId pop w) = w
            \<and> \<not> success (snd (removeFromGroup (Some r) chatId userId pop w)))"
  using renameGroup_no_admin [OF assms] updateGroupAbout_no_admin [OF assms]
    updateGroupPic_no_admin [OF assms] addToGroup_no_admin [OF assms]
    transferAdmin_no_admin [OF assms] removeFromGroup_no_admin [OF assms]
  by blast

lemmas controller_defs =
  accessChat_def createGroupChat_def renameGroup_def updateGroupAbout_def updateGroupPic_def
  admin_update_def classify_failure_def addToGroup_def addToGroup_check_def
  addToGroup_commit_def removeFromGroup_def removeFromGroup_check_def
  removeFromGroup_commit_def transferAdmin_def deleteGroup_def sendMessage_def
  findOne_def findById_def findOneAndUpdate_def direct_query_def direct_between_def
  populateChat_def json_def fail_def truthy_def trim_def is_space_def uniq_def addToSet_def
  canon_def lower_hex_def
  pull_def emit_def fresh_def emitted_after_commit_def emitted_def
  group_of_def w_group_def w_team_def world0_def Let_def

theorem non_admin_request_fails_unchanged_witness:
  "chats w_team = [group_of [''a'', ''b'', ''c'']]
   \<and> groupAdmin (group_of [''a'', ''b'', ''c'']) \<noteq> Some ''b''
   \<and> renameGroup (Some ''b'') (Id ''g1'') (Some ''Mine'') True w_team
       = (w_team, fail 403 ''Admin only action'')
   \<and> fst (addToGroup (Some ''b'') (Id ''g1'') (Some [Id ''d'']) True w_team) = w_team
   \<and> Id ''c'' \<noteq> Id ''b''
   \<and> removeFromGroup (Some ''b'') (Id ''g1'') (Id ''c'') True w_team
       = (w_team, fail 403 ''Only admins can remove other users.'')"
  using non_admin_request_fails_unchanged [where w = w_team and chatId = "Id ''g1''"
      and r = "''b''" and name = "Some ''Mine''" and pop = True and ids = "Some [Id ''d'']"
      and userId = "Id ''c''"]
  by (simp add: controller_defs)

subsection \<open>The admin leaving the group\<close>

lemma two_members_length:
  "a \<in> set xs \<Longrightarrow> u \<in> set xs \<Longrightarrow> u \<noteq> a \<Longrightarrow> 1 < length xs"
  by (cases xs; cases "tl xs") auto

lemma distinct_singleton_set:
  "distinct xs \<Longrightarrow> set xs = {a} \<Longrightarrow> xs = [a]"
  by (cases xs; cases "tl xs") auto

lemma find_update_first:
  "find P cs = Some c \<Longrightarrow> P (f c) \<Longrightarrow> find P (update_first P f cs) = Some (f c)"
  by (induction cs) (auto split: if_splits)

text \<open>
  What the source does with a request of the admin \<open>a\<close> to remove \<open>a\<close>, the id spelled as
  the session has it: the request is refused when the stored array has more than one
  element, and committed otherwise.
\<close>

lemma removeFromGroup_admin_self:
  assumes "findById (canon cid) (chats w) = Some c" and "isGroupChat c"
    and "groupAdmin c = Some a" and "a \<in> set (users c)"
  shows "removeFromGroup (Some a) (Id cid) (Id a) pop w =
           (if 1 < length (users c)
            then (w, fail 400 ''Admin must transfer ownership before leaving the group.'')
            else removeFromGroup_commit (Some a) cid a pop w)"
  using assms by (simp add: removeFromGroup_def removeFromGroup_check_def Let_def)

lemma removeFromGroup_commit_found:
  assumes "findById (canon cid) (chats w) = Some c"
  shows "success (snd (removeFromGroup_commit rq cid u pop w))
       \<and> findById (canon cid) (chats (fst (removeFromGroup_commit rq cid u pop w)))
           = Some (c\<lparr>users := pull (canon u) (users c)\<rparr>)"
proof -
  from assms have f: "find (\<lambda>d. chat_id d = canon cid) (chats w) = Some c"
    by (simp add: findById_def)
  then have "chat_id c = canon cid" by (auto simp: find_Some_iff)
  then have "find (\<lambda>d. chat_id d = canon cid)
               (update_first (\<lambda>d. chat_id d = canon cid)
                  (\<lambda>d. d\<lparr>users := pull (canon u) (users d)\<rparr>) (chats w))
             = Some (c\<lparr>users := pull (canon u) (users c)\<rparr>)"
    using find_update_first [OF f, of "\<lambda>d. d\<lparr>users := pull (canon u) (users d)\<rparr>"] by simp
  with f show ?thesis
    by (simp add: removeFromGroup_commit_def findOneAndUpdate_def findById_def populateChat_def
        json_def emit_def Let_def)
qed

text \<open>
  Where the members of the group are stored once each and the admin's id is spelled as
  the store has it, the length test is the test for another member: the request is
  refused, the state unchanged, whenever another member remains, and it succeeds exactly
  when the admin is the only member, leaving the group without members.
\<close>

lemma admin_self_removal_distinct:
  assumes "findById (canon cid) (chats w) = Some c" and "isGroupChat c"
    and "groupAdmin c = Some a" and "a \<in> set (users c)"
    and "distinct (users c)" and "canon a = a"
  shows "((\<exists>u \<in> set (users c). u \<noteq> a) \<longrightarrow>
            removeFromGroup (Some a) (Id cid) (Id a) pop w
              = (w, fail 400 ''Admin must transfer ownership before leaving the group.''))
       \<and> (set (users c) = {a} \<longrightarrow>
            success (snd (removeFromGroup (Some a) (Id cid) (Id a) pop w))
            \<and> findById (canon cid) (chats (fst (removeFromGroup (Some a) (Id cid) (Id a) pop w)))
                = Some (c\<lparr>users := []\<rparr>))
       \<and> (success (snd (removeFromGroup (Some a) (Id cid) (Id a) pop w))
            \<longleftrightarrow> set (users c) = {a})"
proof -
  note chk = removeFromGroup_admin_self [OF assms(1-4)]
  have many: "removeFromGroup (Some a) (Id cid) (Id a) pop w
                = (w, fail 400 ''Admin must transfer ownership before leaving the group.'')"
    if "\<exists>u \<in> set (users c). u \<noteq> a"
  proof -
    from that assms(4) have "1 < length (users c)" by (blast intro: two_members_length)
    then show ?thesis by (simp add: chk)
  qed
  have sole: "success (snd (removeFromGroup (Some a) (Id cid) (Id a) pop w))
            \<and> findById (canon cid) (chats (fst (removeFromGroup (Some a) (Id cid) (Id a) pop w)))
                = Some (c\<lparr>users := []\<rparr>)"
    if "set (users c) = {a}"
  proof -
    from that assms(5) have u: "users c = [a]" by (rule distinct_singleton_set [rotated])
    then have "removeFromGroup (Some a) (Id cid) (Id a) pop w
                 = removeFromGroup_commit (Some a) cid a pop w"
      by (simp add: chk)
    with removeFromGroup_commit_found [OF assms(1), of "Some a" a pop] u assms(6)
    show ?thesis by (simp add: pull_def)
  qed
  show ?thesis
  proof (cases "set (users c) = {a}")
    case True
    then have "\<not> (\<exists>u \<in> set (users c). u \<noteq> a)" by simp
    with True sole show ?thesis by simp
  next
    case False
    with assms(4) have other: "\<exists>u \<in> set (users c). u \<noteq> a" by auto
    from many [OF other] have "\<not> success (snd (removeFromGroup (Some a) (Id cid) (Id a) pop w))"
      by (simp add: fail_def json_def)
    with False many [OF other] show ?thesis by simp
  qed
qed

text \<open>
  Claim C6 on the source. The test of chatController.js:926 is
  \<^verbatim>\<open>chat.users.length > 1\<close>, the length of the stored array, and the array can hold an id
  twice: \<^verbatim>\<open>createGroupChat\<close> removes duplicates among the strings of the request and
  stores the ids they are cast to. The admin \<open>a\<close> creates a group naming \<open>b\<close> and its own
  id in upper case; the group is stored with the users \<open>a\<close>, \<open>a\<close>, \<open>b\<close>. After \<open>a\<close> removed
  \<open>b\<close>, the admin is the only member that remains, and its request to leave is refused
  with the transfer-required failure, the state unchanged. In a group stored with the
  admin as its one member, the request of the admin that spells its own id in upper case
  is refused as naming no member of the group.
\<close>

theorem sole_admin_cannot_leave:
  "status (snd (createGroupChat (Some ''a'') (Some ''Crew'') (Some [Id ''A'', Id ''b''])
        None ''g2'' True w_team)) = 201
   \<and> map users (chats w_crew) = [[''a'', ''b'', ''c''], [''a'', ''a'', ''b'']]
   \<and> success (snd (removeFromGroup (Some ''a'') (Id ''g2'') (Id ''b'') True w_crew))
   \<and> map chat_id (chats w_crew_left) = [''g1'', ''g2'']
   \<and> map isGroupChat (chats w_crew_left) = [True, True]
   \<and> map groupAdmin (chats w_crew_left) = [Some ''a'', Some ''a'']
   \<and> map users (chats w_crew_left) = [[''a'', ''b'', ''c''], [''a'', ''a'']]
   \<and> removeFromGroup (Some ''a'') (Id ''g2'') (Id ''a'') True w_crew_left
       = (w_crew_left, fail 400 ''Admin must transfer ownership before leaving the group.'')
   \<and> the_id (Id ''A'') = ''a''
   \<and> chats (w_group [''a'']) = [group_of [''a'']]
   \<and> removeFromGroup (Some ''a'') (Id ''g1'') (Id ''A'') True (w_group [''a''])
       = (w_group [''a''], fail 400 ''User specified is not a member of this group.'')"
  by (simp add: controller_defs w_crew_def w_crew_left_def)

theorem sole_admin_cannot_leave_witness:
  "set (users (chats w_crew_left ! 1)) = {''a''}
   \<and> \<not> success (snd (removeFromGroup (Some ''a'') (Id ''g2'') (Id ''a'') True w_crew_left))
   \<and> \<not> success (snd (removeFromGroup (Some ''a'') (Id ''g1'') (Id ''A'') True
           (w_group [''a''])))"
proof -
  from sole_admin_cannot_leave
  have "map users (chats w_crew_left) = [[''a'', ''b'', ''c''], [''a'', ''a'']]" by blast
  then have "users (chats w_crew_left ! 1) = [''a'', ''a'']"
    by (metis One_nat_def length_Cons list.size(3) lessI nth_Cons_0 nth_Cons_Suc nth_map
        length_map)
  with sole_admin_cannot_leave show ?thesis by (simp add: fail_def json_def)
qed

subsection \<open>Direct conversations\<close>

lemma canon_idem: "canon (canon s) = canon s"
  by (induction s) (simp_all add: canon_def lower_hex_def)

lemma direct_query_sym: "direct_query a b = direct_query b a"
  by (auto simp: direct_query_def fun_eq_iff)

lemma direct_query_pair:
  assumes "x \<noteq> y" and "direct_query x y c" and "users c = [a, b]"
  shows "direct_query x y = direct_query a b"
proof -
  from assms have "(x = a \<and> y = b) \<or> (x = b \<and> y = a)"
    by (auto simp: direct_query_def)
  then show ?thesis using direct_query_sym by auto
qed

lemma direct_query_members:
  assumes "a \<noteq> b" and "direct_query a b c"
  shows "\<not> isGroupChat c \<and> set (users c) = {a, b} \<and> length (users c) = 2"
proof -
  from assms(2) have l: "length (users c) = 2" and m: "a \<in> set (users c)" "b \<in> set (users c)"
    and g: "\<not> isGroupChat c"
    by (simp_all add: direct_query_def)
  from l obtain x y where xy: "users c = [x, y]"
    by (cases "users c"; cases "tl (users c)") auto
  with m assms(1) have "set (users c) = {a, b}" by auto
  with l g show ?thesis by simp
qed

lemma find_append_new:
  "find P cs = None \<Longrightarrow> P c \<Longrightarrow> find P (cs @ [c]) = Some c"
  by (induction cs) (auto split: if_splits)

lemma find_hd_filter:
  "find P cs = Some c \<Longrightarrow> filter P cs \<noteq> [] \<and> hd (filter P cs) = c"
  by (induction cs) (auto split: if_splits)

lemma find_None_filter: "find P cs = None \<longleftrightarrow> filter P cs = []"
  by (auto simp: find_None_iff filter_empty_conv)

lemma findById_created:
  assumes "n \<notin> chat_id ` set cs" and "chat_id c = n"
  shows "findById n (cs @ [c]) = Some c"
proof -
  from assms(1) have "find (\<lambda>d. chat_id d = n) cs = None"
    by (auto simp: find_None_iff)
  from find_append_new [OF this, of c] assms(2) show ?thesis
    by (simp add: findById_def)
qed

text \<open>
  \<^verbatim>\<open>accessChat\<close> for a requester \<open>a\<close> and a target spelled \<open>sb\<close>, a string other than \<open>a\<close>
  that is the id of an existing user.
\<close>

lemma accessChat_valid:
  assumes "sb \<noteq> a" and "canon sb \<in> set (userColl w)"
  shows "accessChat (Some a) (Id sb) n p w =
     (case find (direct_query a (canon sb)) (chats w) of
        Some c \<Rightarrow> (w, if p then json 200 True [] (Some c)
                       else fail 500 ''Failed to retrieve chat details'')
      | None \<Rightarrow>
          if n \<in> chat_id ` set (chats w)
          then (w, fail 500 ''Server error during chat access/creation.'')
          else if p
          then (emit (Room sb) (NewChat (direct_chat n a (canon sb)))
                  (w\<lparr>chats := chats w @ [direct_chat n a (canon sb)]\<rparr>),
                json 201 True [] (Some (direct_chat n a (canon sb))))
          else (w\<lparr>chats := chats w @ [direct_chat n a (canon sb)]\<rparr>,
                fail 500 ''Failed to create chat details''))"
proof (cases "find (direct_query a (canon sb)) (chats w)")
  case (Some c)
  with assms show ?thesis
    by (simp add: accessChat_def findOne_def Let_def populateChat_def)
next
  case None
  show ?thesis
  proof (cases "n \<in> chat_id ` set (chats w)")
    case True
    with None assms show ?thesis
      by (simp add: accessChat_def findOne_def Let_def)
  next
    case False
    have "findById n (chats w @ [direct_chat n a (canon sb)]) = Some (direct_chat n a (canon sb))"
      by (rule findById_created [OF False]) (simp add: direct_chat_def)
    with None False assms show ?thesis
      by (simp add: accessChat_def findOne_def Let_def populateChat_def direct_chat_def)
  qed
qed

lemma accessChat_invalid:
  assumes "\<not> (\<exists>a sb. rq = Some a \<and> tgt = Id sb \<and> sb \<noteq> a \<and> canon sb \<in> set (userColl w))"
  shows "fst (accessChat rq tgt n p w) = w"
proof (cases tgt)
  case (Id sb)
  show ?thesis
  proof (cases rq)
    case None
    with Id show ?thesis by (simp add: accessChat_def)
  next
    case (Some a)
    with Id assms have "sb = a \<or> canon sb \<notin> set (userColl w)" by blast
    with Id Some show ?thesis by (auto simp: accessChat_def Let_def)
  qed
qed (simp_all add: accessChat_def)

lemma accessChat_chats:
  "chats (fst (accessChat rq tgt n p w)) = chats w
   \<or> (\<exists>a b. find (direct_query a b) (chats w) = None
        \<and> chats (fst (accessChat rq tgt n p w)) = chats w @ [direct_chat n a b])"
proof (cases "\<exists>a sb. rq = Some a \<and> tgt = Id sb \<and> sb \<noteq> a \<and> canon sb \<in> set (userColl w)")
  case False
  then show ?thesis by (simp add: accessChat_invalid)
next
  case True
  then obtain a sb where ab: "rq = Some a" "tgt = Id sb" "sb \<noteq> a" "canon sb \<in> set (userColl w)"
    by blast
  show ?thesis
  proof (cases "find (direct_query a (canon sb)) (chats w)")
    case (Some c)
    then show ?thesis by (simp add: ab accessChat_valid)
  next
    case None
    then have "chats (fst (accessChat rq tgt n p w)) = chats w
        \<or> chats (fst (accessChat rq tgt n p w)) = chats w @ [direct_chat n a (canon sb)]"
      by (simp add: ab accessChat_valid emit_def)
    with None show ?thesis by blast
  qed
qed

text \<open>
  No call of \<^verbatim>\<open>accessChat\<close>, whatever the request, gives a pair of distinct identities a
  second direct conversation.
\<close>

lemma direct_between_accessChat:
  assumes "x \<noteq> y" and "length (direct_between x y (chats w)) \<le> 1"
  shows "length (direct_between x y (chats (fst (accessChat rq tgt n p w)))) \<le> 1"
proof -
  consider "chats (fst (accessChat rq tgt n p w)) = chats w"
    | a b where "find (direct_query a b) (chats w) = None"
        "chats (fst (accessChat rq tgt n p w)) = chats w @ [direct_chat n a b]"
    using accessChat_chats [of rq tgt n p w] by blast
  then show ?thesis
  proof cases
    case 1
    with assms show ?thesis by simp
  next
    case 2
    show ?thesis
    proof (cases "direct_query x y (direct_chat n a b)")
      case True
      have "users (direct_chat n a b) = [a, b]" by (simp add: direct_chat_def)
      from direct_query_pair [OF assms(1) True this]
      have "direct_query x y = direct_query a b" .
      with 2(1) have "direct_between x y (chats w) = []"
        by (simp add: direct_between_def find_None_iff filter_empty_conv)
      with 2(2) show ?thesis by (simp add: direct_between_def)
    next
      case False
      with 2(2) assms(2) show ?thesis by (simp add: direct_between_def)
    qed
  qed
qed

text \<open>
  The first call: the conversation \<open>c\<close> that the query finds in the state after it is the
  one the call returns, and the store is the old one, with \<open>c\<close> appended exactly when the
  pair had no conversation.
\<close>

lemma accessChat_first:
  assumes "sb \<noteq> a" and "canon sb \<in> set (userColl w)" and "n \<notin> chat_id ` set (chats w)"
    and "accessChat (Some a) (Id sb) n p w = (w1, r1)"
  shows "\<exists>c. find (direct_query a (canon sb)) (chats w1) = Some c
           \<and> success r1 = p \<and> res_chat r1 = (if p then Some c else None)
           \<and> status r1 = (if \<not> p then 500
                           else if direct_between a (canon sb) (chats w) = [] then 201 else 200)
           \<and> chats w1 = (if direct_between a (canon sb) (chats w) = []
                          then chats w @ [c] else chats w)
           \<and> userColl w1 = userColl w"
proof (cases "find (direct_query a (canon sb)) (chats w)")
  case (Some c)
  then have ne: "direct_between a (canon sb) (chats w) \<noteq> []"
    by (simp add: direct_between_def find_hd_filter)
  from assms(4) Some accessChat_valid [OF assms(1,2), of n p]
  have "w1 = w" and "r1 = (if p then json 200 True [] (Some c)
                            else fail 500 ''Failed to retrieve chat details'')"
    by simp_all
  with Some ne show ?thesis by (simp add: json_def fail_def)
next
  case None
  let ?c = "direct_chat n a (canon sb)"
  from None have e: "direct_between a (canon sb) (chats w) = []"
    by (simp add: direct_between_def find_None_filter)
  have q: "direct_query a (canon sb) ?c"
    by (simp add: direct_query_def direct_chat_def)
  from assms(3,4) None accessChat_valid [OF assms(1,2), of n p]
  have w1: "chats w1 = chats w @ [?c]" "userColl w1 = userColl w"
    and r1: "r1 = (if p then json 201 True [] (Some ?c)
                    else fail 500 ''Failed to create chat details'')"
    by (auto simp: emit_def split: if_splits)
  from find_append_new [OF None q] w1 r1 e show ?thesis
    by (simp add: json_def fail_def)
qed

text \<open>
  Claim C7. Let \<open>a\<close> and \<open>b\<close> be the ids of two distinct existing users, \<open>sa\<close> and \<open>sb\<close>
  strings that requests spell them with, and let \<open>a\<close> call create-direct for \<open>b\<close> in a
  store that gives a new document an unused id. The call succeeds if the population
  does, and there is a conversation \<open>c\<close> in the store after it, not a group, with the two
  members \<open>a\<close> and \<open>b\<close>, such that: the call returns \<open>c\<close>; the store is the old one if the
  pair had a conversation, and the old one with \<open>c\<close> appended if it had none; \<open>c\<close> is the
  first conversation of the pair in the store; a second call for the pair, by \<open>a\<close> for
  \<open>b\<close> or by \<open>b\<close> for \<open>a\<close>, returns \<open>c\<close> with status 200 and changes nothing, whatever id
  the store would give a new document and whether or not the population succeeds; and if
  the store held at most one direct conversation of the pair before the first call, \<open>c\<close> is
  the only one after it. No call gives any pair of distinct identities a second
  conversation.
\<close>

theorem create_direct_idempotent:
  assumes "a \<noteq> b" and "canon sa = a" and "canon sb = b"
    and "a \<in> set (userColl w)" and "b \<in> set (userColl w)"
    and "n \<notin> chat_id ` set (chats w)"
    and "accessChat (Some a) (Id sb) n p w = (w1, r1)"
  shows "\<exists>c. success r1 = p \<and> res_chat r1 = (if p then Some c else None)
           \<and> status r1 = (if \<not> p then 500
                           else if direct_between a b (chats w) = [] then 201 else 200)
           \<and> c \<in> set (chats w1) \<and> \<not> isGroupChat c
           \<and> set (users c) = {a, b} \<and> length (users c) = 2
           \<and> chats w1 = (if direct_between a b (chats w) = [] then chats w @ [c] else chats w)
           \<and> hd (direct_between a b (chats w1)) = c
           \<and> accessChat (Some a) (Id sb) n' True w1 = (w1, json 200 True [] (Some c))
           \<and> accessChat (Some b) (Id sa) n' True w1 = (w1, json 200 True [] (Some c))
           \<and> fst (accessChat (Some a) (Id sb) n' p' w1) = w1
           \<and> fst (accessChat (Some b) (Id sa) n' p' w1) = w1
           \<and> (length (direct_between a b (chats w)) \<le> 1 \<longrightarrow>
                direct_between a b (chats w1) = [c] \<and> direct_between b a (chats w1) = [c])
           \<and> (\<forall>x y. x \<noteq> y \<longrightarrow> length (direct_between x y (chats w)) \<le> 1 \<longrightarrow>
                length (direct_between x y (chats w1)) \<le> 1)"
proof -
  have ca: "canon a = a" and cb: "canon b = b"
    using assms(2,3) canon_idem by blast+
  have sba: "sb \<noteq> a" using assms(1,3) ca by auto
  have sab: "sa \<noteq> b" using assms(1,2) cb by auto
  have bu: "canon sb \<in> set (userColl w)" using assms(3,5) by simp
  from accessChat_first [OF sba bu assms(6,7)] assms(3) obtain c where
    c: "find (direct_query a b) (chats w1) = Some c" "success r1 = p"
       "res_chat r1 = (if p then Some c else None)"
       "status r1 = (if \<not> p then 500
                     else if direct_between a b (chats w) = [] then 201 else 200)"
       "chats w1 = (if direct_between a b (chats w) = [] then chats w @ [c] else chats w)"
       "userColl w1 = userColl w"
    by auto
  from c(1) have c': "find (direct_query b a) (chats w1) = Some c"
    by (simp add: direct_query_sym [of b a])
  from c(1) have mem: "c \<in> set (chats w1)" and q: "direct_query a b c"
    by (auto simp: find_Some_iff)
  note members = direct_query_members [OF assms(1) q]
  from find_hd_filter [OF c(1)]
  have hd: "direct_between a b (chats w1) \<noteq> []" "hd (direct_between a b (chats w1)) = c"
    by (simp_all add: direct_between_def)
  have ub: "canon sb \<in> set (userColl w1)" and ua: "canon sa \<in> set (userColl w1)"
    using assms(2-5) c(6) by simp_all
  have second_ab: "accessChat (Some a) (Id sb) n' q' w1
      = (w1, if q' then json 200 True [] (Some c)
             else fail 500 ''Failed to retrieve chat details'')" for q'
    using accessChat_valid [OF sba ub, of n' q'] c(1) assms(3) by simp
  have second_ba: "accessChat (Some b) (Id sa) n' q' w1
      = (w1, if q' then json 200 True [] (Some c)
             else fail 500 ''Failed to retrieve chat details'')" for q'
    using accessChat_valid [OF sab ua, of n' q'] c' assms(2) by simp
  have all: "length (direct_between x y (chats w1)) \<le> 1"
    if "x \<noteq> y" "length (direct_between x y (chats w)) \<le> 1" for x y
    using direct_between_accessChat [OF that, of "Some a" "Id sb" n p] assms(7) by simp
  have one: "direct_between a b (chats w1) = [c] \<and> direct_between b a (chats w1) = [c]"
    if "length (direct_between a b (chats w)) \<le> 1"
  proof -
    from all [OF assms(1) that] hd have "direct_between a b (chats w1) = [c]"
      by (cases "direct_between a b (chats w1)") auto
    then show ?thesis by (simp add: direct_between_def direct_query_sym [of b a])
  qed
  show ?thesis
  proof (intro exI [of _ c] conjI)
    show "success r1 = p" by (rule c(2))
    show "res_chat r1 = (if p then Some c else None)" by (rule c(3))
    show "status r1 = (if \<not> p then 500
                       else if direct_between a b (chats w) = [] then 201 else 200)"
      by (rule c(4))
    show "c \<in> set (chats w1)" by (rule mem)
    show "\<not> isGroupChat c" using members by simp
    show "set (users c) = {a, b}" using members by simp
    show "length (users c) = 2" using members by simp
    show "chats w1 = (if direct_between a b (chats w) = [] then chats w @ [c] else chats w)"
      by (rule c(5))
    show "hd (direct_between a b (chats w1)) = c" by (rule hd(2))
    show "accessChat (Some a) (Id sb) n' True w1 = (w1, json 200 True [] (Some c))"
      using second_ab [of True] by simp
    show "accessChat (Some b) (Id sa) n' True w1 = (w1, json 200 True [] (Some c))"
      using second_ba [of True] by simp
    show "fst (accessChat (Some a) (Id sb) n' p' w1) = w1" using second_ab [of p'] by simp
    show "fst (accessChat (Some b) (Id sa) n' p' w1) = w1" using second_ba [of p'] by simp
    show "length (direct_between a b (chats w)) \<le> 1 \<longrightarrow>
            direct_between a b (chats w1) = [c] \<and> direct_between b a (chats w1) = [c]"
      using one by blast
    show "\<forall>x y. x \<noteq> y \<longrightarrow> length (direct_between x y (chats w)) \<le> 1 \<longrightarrow>
            length (direct_between x y (chats w1)) \<le> 1"
      using all by blast
  qed
qed

theorem create_direct_idempotent_witness:
  "''a'' \<noteq> ''b'' \<and> canon ''A'' = ''a'' \<and> canon ''b'' = ''b''
   \<and> ''a'' \<in> set (userColl w_team) \<and> ''b'' \<in> set (userColl w_team)
   \<and> ''d1'' \<notin> chat_id ` set (chats w_team)
   \<and> direct_between ''a'' ''b'' (chats w_team) = []
   \<and> snd (accessChat (Some ''a'') (Id ''b'') ''d1'' True w_team)
       = json 201 True [] (Some (direct_chat ''d1'' ''a'' ''b''))
   \<and> chats (fst (accessChat (Some ''a'') (Id ''b'') ''d1'' True w_team))
       = chats w_team @ [direct_chat ''d1'' ''a'' ''b'']
   \<and> accessChat (Some ''a'') (Id ''b'') ''d2'' True
        (fst (accessChat (Some ''a'') (Id ''b'') ''d1'' True w_team))
       = (fst (accessChat (Some ''a'') (Id ''b'') ''d1'' True w_team),
          json 200 True [] (Some (direct_chat ''d1'' ''a'' ''b'')))
   \<and> accessChat (Some ''b'') (Id ''A'') ''d2'' True
        (fst (accessChat (Some ''a'') (Id ''b'') ''d1'' True w_team))
       = (fst (accessChat (Some ''a'') (Id ''b'') ''d1'' True w_team),
          json 200 True [] (Some (direct_chat ''d1'' ''a'' ''b'')))
   \<and> direct_between ''a'' ''b''
        (chats (fst (accessChat (Some ''a'') (Id ''b'') ''d1'' True w_team)))
       = [direct_chat ''d1'' ''a'' ''b'']"
proof -
  have v: "accessChat (Some ''a'') (Id ''b'') ''d1'' True w_team
        = (emit (Room ''b'') (NewChat (direct_chat ''d1'' ''a'' ''b''))
             (w_team\<lparr>chats := chats w_team @ [direct_chat ''d1'' ''a'' ''b'']\<rparr>),
           json 201 True [] (Some (direct_chat ''d1'' ''a'' ''b'')))"
    by (simp add: accessChat_valid w_team_def w_group_def group_of_def world0_def
        direct_query_def canon_def lower_hex_def)
  have h: "''a'' \<noteq> ''b''" "canon ''A'' = ''a''" "canon ''b'' = ''b''"
    "''a'' \<in> set (userColl w_team)" "''b'' \<in> set (userColl w_team)"
    "''d1'' \<notin> chat_id ` set (chats w_team)"
    and e: "direct_between ''a'' ''b'' (chats w_team) = []"
    by (simp_all add: w_team_def w_group_def group_of_def world0_def canon_def lower_hex_def
        direct_between_def direct_query_def)
  from create_direct_idempotent [OF h v, of "''d2''" True] obtain c where
    c: "res_chat (json 201 True [] (Some (direct_chat ''d1'' ''a'' ''b''))) = Some c"
       "accessChat (Some ''a'') (Id ''b'') ''d2'' True
          (emit (Room ''b'') (NewChat (direct_chat ''d1'' ''a'' ''b''))
             (w_team\<lparr>chats := chats w_team @ [direct_chat ''d1'' ''a'' ''b'']\<rparr>))
        = (emit (Room ''b'') (NewChat (direct_chat ''d1'' ''a'' ''b''))
             (w_team\<lparr>chats := chats w_team @ [direct_chat ''d1'' ''a'' ''b'']\<rparr>),
           json 200 True [] (Some c))"
       "accessChat (Some ''b'') (Id ''A'') ''d2'' True
          (emit (Room ''b'') (NewChat (direct_chat ''d1'' ''a'' ''b''))
             (w_team\<lparr>chats := chats w_team @ [direct_chat ''d1'' ''a'' ''b'']\<rparr>))
        = (emit (Room ''b'') (NewChat (direct_chat ''d1'' ''a'' ''b''))
             (w_team\<lparr>chats := chats w_team @ [direct_chat ''d1'' ''a'' ''b'']\<rparr>),
           json 200 True [] (Some c))"
       "length (direct_between ''a'' ''b'' (chats w_team)) \<le> 1 \<longrightarrow>
          direct_between ''a'' ''b''
            (chats (emit (Room ''b'') (NewChat (direct_chat ''d1'' ''a'' ''b''))
               (w_team\<lparr>chats := chats w_team @ [direct_chat ''d1'' ''a'' ''b'']\<rparr>)))
          = [c]"
    by auto
  from c(1) have "c = direct_chat ''d1'' ''a'' ''b''" by (simp add: json_def)
  with c(2-4) e h v show ?thesis by (simp add: emit_def)
qed

subsection \<open>The order of writes and events\<close>

lemma eac_same: "outbox w' = outbox w \<Longrightarrow> emitted_after_commit w w'"
  by (simp add: emitted_after_commit_def fresh_def)

lemma eac_emit:
  "outbox w1 = outbox w \<Longrightarrow> emitted_after_commit w (emit t e w1)"
  by (simp add: emitted_after_commit_def fresh_def emit_def)

lemma eac_emit2:
  "outbox w1 = outbox w \<Longrightarrow> emitted_after_commit w (emit t' e' (emit t e w1))"
  by (simp add: emitted_after_commit_def fresh_def emit_def)

lemma foldl_emit:
  "chats (foldl (\<lambda>w' u. if P u then emit (t u) (e u) w' else w') w us) = chats w
   \<and> messages (foldl (\<lambda>w' u. if P u then emit (t u) (e u) w' else w') w us) = messages w
   \<and> outbox (foldl (\<lambda>w' u. if P u then emit (t u) (e u) w' else w') w us)
       = outbox w @ map (\<lambda>u. \<lparr>em_to = t u, em_event = e u, em_store = (chats w, messages w)\<rparr>)
                      (filter P us)"
proof (induction us arbitrary: w)
  case Nil
  show ?case by simp
next
  case (Cons u us)
  show ?case
    using Cons.IH [of "if P u then emit (t u) (e u) w else w"]
    by (simp add: emit_def)
qed

lemma eac_foldl_emit:
  assumes "length (outbox w) \<le> length (outbox w1)"
    and "\<forall>x \<in> set (drop (length (outbox w)) (outbox w1)). em_store x = (chats w1, messages w1)"
  shows "emitted_after_commit w (foldl (\<lambda>w' u. if P u then emit (t u) (e u) w' else w') w1 us)"
  using assms foldl_emit [of P t e w1 us]
  by (auto simp: emitted_after_commit_def fresh_def)

lemma eac_admin_update:
  "emitted_after_commit w (fst (admin_update cid r upd m1 m2 m3 m4 m5 pop w))"
  by (simp add: admin_update_def findOneAndUpdate_def populateChat_def eac_same eac_emit
      split: option.splits)

lemma eac_renameGroup: "emitted_after_commit w (fst (renameGroup rq cid nm pop w))"
  by (simp add: renameGroup_def eac_admin_update eac_same)

lemma eac_updateGroupAbout: "emitted_after_commit w (fst (updateGroupAbout rq cid tx pop w))"
  by (simp add: updateGroupAbout_def eac_admin_update eac_same)

lemma eac_updateGroupPic: "emitted_after_commit w (fst (updateGroupPic rq cid pic pop w))"
  by (simp add: updateGroupPic_def eac_admin_update eac_same)

lemma eac_transferAdmin: "emitted_after_commit w (fst (transferAdmin rq cid new pop w))"
  by (simp add: transferAdmin_def findOneAndUpdate_def populateChat_def eac_same eac_emit Let_def
      split: option.splits)

lemma eac_accessChat: "emitted_after_commit w (fst (accessChat rq tgt n pop w))"
  by (simp add: accessChat_def findOne_def populateChat_def eac_same eac_emit Let_def
      split: option.splits)


lemma eac_createGroupChat:
  "emitted_after_commit w (fst (createGroupChat rq nm us ab n pop w))"
proof -
  have "emitted_after_commit w
          (foldl (\<lambda>w' u. if u \<noteq> c then emit (Room u) (AddedToGroup g) w' else w')
             (w\<lparr>chats := cs\<rparr>) l)" for c g cs l
    by (rule eac_foldl_emit) simp_all
  then show ?thesis
    by (simp add: createGroupChat_def populateChat_def eac_same Let_def split: option.splits)
qed

lemma eac_addToGroup_commit:
  "emitted_after_commit w (fst (addToGroup_commit cid ids pop w))"
proof -
  have "emitted_after_commit w
          (foldl (\<lambda>w' u. if True then emit (Room u) (AddedToGroup g) w' else w')
             (emit (Room cid) (GroupUpdated g) (w\<lparr>chats := cs\<rparr>)) ids)" for g cs
    by (rule eac_foldl_emit) (simp_all add: emit_def)
  then show ?thesis
    by (simp add: addToGroup_commit_def findOneAndUpdate_def populateChat_def eac_same Let_def
        split: option.splits)
qed

lemma eac_addToGroup: "emitted_after_commit w (fst (addToGroup rq cid ids pop w))"
  by (simp add: addToGroup_def eac_addToGroup_commit eac_same split: sum.splits)

lemma eac_removeFromGroup_commit:
  "emitted_after_commit w (fst (removeFromGroup_commit rq cid u pop w))"
  by (simp add: removeFromGroup_commit_def findOneAndUpdate_def populateChat_def eac_same Let_def
      emitted_after_commit_def fresh_def emit_def split: option.splits)

lemma eac_removeFromGroup: "emitted_after_commit w (fst (removeFromGroup rq cid u pop w))"
  by (simp add: removeFromGroup_def eac_removeFromGroup_commit eac_same split: sum.splits)

lemma eac_sendMessage: "emitted_after_commit w (fst (sendMessage rq body cid n w))"
  by (simp add: sendMessage_def findOne_def eac_same eac_emit2 Let_def split: option.splits)

lemma find_weaker:
  assumes "find P cs = Some c" and "\<And>x. P x \<Longrightarrow> Q x"
  shows "find Q cs \<noteq> None"
proof -
  from assms(1) obtain i where "i < length cs" and "P (cs ! i)"
    by (auto simp: find_Some_iff)
  then have "cs ! i \<in> set cs" and "Q (cs ! i)" using assms(2) by simp_all
  then show ?thesis by (auto simp: find_None_iff)
qed

lemma deleteGroup_emits_before:
  "\<forall>e \<in> set (fresh w (fst (deleteGroup rq cid w))).
      em_store e = (chats w, messages w) \<and> findById (the_id cid) (chats w) \<noteq> None"
proof (cases "rq \<noteq> None \<and> isValid cid")
  case False
  then show ?thesis by (auto simp: deleteGroup_def fresh_def)
next
  case True
  show ?thesis
  proof (cases "findOne (\<lambda>c. chat_id c = the_id cid \<and> isGroupChat c
                  \<and> groupAdmin c = Some (the rq)) (chats w)")
    case None
    with True show ?thesis by (simp add: deleteGroup_def fresh_def Let_def)
  next
    case (Some c)
    then have "findById (the_id cid) (chats w) \<noteq> None"
      unfolding findOne_def findById_def by (rule find_weaker) simp
    with True Some show ?thesis
      by (simp add: deleteGroup_def fresh_def emit_def Let_def)
  qed
qed

text \<open>
  Claim C3, as stated: every event of a state-changing operation is emitted after the
  write has committed, \<^verbatim>\<open>group deleted\<close> included. It fails for \<^verbatim>\<open>deleteGroup\<close>: when the
  event is emitted the store is the one before the deletion.
\<close>

theorem group_deleted_before_delete_counterexample:
  "\<not> emitted_after_commit w_team (fst (deleteGroup (Some ''a'') (Id ''g1'') w_team))"
  by (simp add: controller_defs)

text \<open>What the deletion emits, the store the event is emitted on, and the store after.\<close>

lemma group_deleted_trace:
  "map em_event (fresh w_team (fst (deleteGroup (Some ''a'') (Id ''g1'') w_team)))
        = [GroupDeleted ''g1'' ''Team'']
   \<and> map em_store (fresh w_team (fst (deleteGroup (Some ''a'') (Id ''g1'') w_team)))
        = [([group_of [''a'', ''b'', ''c'']], [])]
   \<and> chats (fst (deleteGroup (Some ''a'') (Id ''g1'') w_team)) = []"
  by (simp add: controller_defs)

text \<open>
  Claim C3, amended. Every event emitted by create-direct, create-group, rename,
  update-about, update-picture, add-members, remove-member, transfer-admin and
  send-message is emitted after the writes of the operation: a read of the store at the
  moment of the event returns the state the operation leaves. The delete operation is
  the exception: \<^verbatim>\<open>group deleted\<close> is emitted before the conversation and its messages
  are deleted, on a store that still holds the conversation.
\<close>

theorem events_follow_writes_except_delete:
  "emitted_after_commit w (fst (accessChat rq tgt n pop w))
   \<and> emitted_after_commit w (fst (createGroupChat rq nm us ab n pop w))
   \<and> emitted_after_commit w (fst (renameGroup rq cid nm pop w))
   \<and> emitted_after_commit w (fst (updateGroupAbout rq cid tx pop w))
   \<and> emitted_after_commit w (fst (updateGroupPic rq cid pic pop w))
   \<and> emitted_after_commit w (fst (addToGroup rq cid us pop w))
   \<and> emitted_after_commit w (fst (removeFromGroup rq cid tgt pop w))
   \<and> emitted_after_commit w (fst (transferAdmin rq cid tgt pop w))
   \<and> emitted_after_commit w (fst (sendMessage r body cid n w))
   \<and> (\<forall>e \<in> set (fresh w (fst (deleteGroup rq cid w))).
         em_store e = (chats w, messages w) \<and> findById (the_id cid) (chats w) \<noteq> None)"
  by (intro conjI eac_accessChat eac_createGroupChat eac_renameGroup eac_updateGroupAbout
      eac_updateGroupPic eac_addToGroup eac_removeFromGroup eac_transferAdmin eac_sendMessage
      deleteGroup_emits_before)

theorem events_follow_writes_except_delete_witness:
  "map em_event (fresh w_team
       (fst (renameGroup (Some ''a'') (Id ''g1'') (Some ''Crew'') True w_team)))
     = [GroupUpdated ((group_of [''a'', ''b'', ''c''])\<lparr>chatName := ''Crew''\<rparr>)]
   \<and> map em_store (fresh w_team
       (fst (renameGroup (Some ''a'') (Id ''g1'') (Some ''Crew'') True w_team)))
     = [([(group_of [''a'', ''b'', ''c''])\<lparr>chatName := ''Crew''\<rparr>], [])]
   \<and> chats (fst (renameGroup (Some ''a'') (Id ''g1'') (Some ''Crew'') True w_team))
     = [(group_of [''a'', ''b'', ''c''])\<lparr>chatName := ''Crew''\<rparr>]
   \<and> map em_store (fresh w_team (fst (deleteGroup (Some ''a'') (Id ''g1'') w_team)))
     = [(chats w_team, messages w_team)]
   \<and> findById (the_id (Id ''g1'')) (chats w_team) \<noteq> None"
  using events_follow_writes_except_delete [where w = w_team and rq = "Some ''a''"
      and cid = "Id ''g1''" and nm = "Some ''Crew''" and pop = True]
  by (simp add: controller_defs)

subsection \<open>Creating a group\<close>

text \<open>
  Claim C8 on the source. \<^verbatim>\<open>createGroupChat\<close> checks the format of the ids and their
  number, and never reads the User collection: a request by \<open>a\<close> naming \<open>b\<close> and an
  identity \<open>zz\<close> that no user has is answered with 201, and the group with \<open>zz\<close> among
  its members is in the store.
\<close>

theorem group_with_unknown_member:
  "''zz'' \<notin> set (userColl w_team)
   \<and> status (snd (createGroupChat (Some ''a'') (Some ''Crew'') (Some [Id ''b'', Id ''zz''])
        None ''g2'' True w_team)) = 201
   \<and> success (snd (createGroupChat (Some ''a'') (Some ''Crew'') (Some [Id ''b'', Id ''zz''])
        None ''g2'' True w_team))
   \<and> map users (chats (fst (createGroupChat (Some ''a'') (Some ''Crew'')
        (Some [Id ''b'', Id ''zz'']) None ''g2'' True w_team)))
       = [[''a'', ''b'', ''c''], [''a'', ''b'', ''zz'']]"
  by (simp add: controller_defs)

theorem group_with_unknown_member_witness:
  "''zz'' \<notin> set (userColl w_team)
   \<and> success (snd (createGroupChat (Some ''a'') (Some ''Crew'') (Some [Id ''b'', Id ''zz''])
        None ''g2'' True w_team))"
  using group_with_unknown_member by simp

text \<open>
  The two \<^verbatim>\<open>Set\<close>s of the function hold the strings of the request, so that two
  spellings of one id count as two members and are stored as the same id twice.
\<close>

lemma group_with_member_twice:
  "status (snd (createGroupChat (Some ''a'') (Some ''Crew'') (Some [Id ''b'', Id ''B''])
        None ''g2'' True w_team)) = 201
   \<and> map users (chats (fst (createGroupChat (Some ''a'') (Some ''Crew'')
        (Some [Id ''b'', Id ''B'']) None ''g2'' True w_team)))
       = [[''a'', ''b'', ''c''], [''a'', ''b'', ''b'']]"
  by (simp add: controller_defs)

subsection \<open>Authorization at the time of the write\<close>

text \<open>
  The writes of rename, update-about, update-picture and transfer-admin change the store
  only where a document of that id has the requester as its admin at the time of the
  write: the test is part of the one \<^verbatim>\<open>findOneAndUpdate\<close>.
\<close>

lemma guarded_write_needs_admin:
  assumes "chats (fst (admin_update cid r upd m1 m2 m3 m4 m5 pop w)) \<noteq> chats w"
  shows "\<exists>c \<in> set (chats w). chat_id c = canon cid \<and> groupAdmin c = Some r"
  using assms
  by (auto simp: admin_update_def findOneAndUpdate_def find_Some_iff emit_def
      split: option.splits)

lemma guarded_transfer_needs_admin:
  assumes "chats (fst (transferAdmin (Some r) cid new pop w)) \<noteq> chats w"
  shows "\<exists>c \<in> set (chats w). chat_id c = the_id cid \<and> groupAdmin c = Some r"
proof (rule ccontr)
  assume "\<not> (\<exists>c \<in> set (chats w). chat_id c = the_id cid \<and> groupAdmin c = Some r)"
  then have "\<forall>c \<in> set (chats w). chat_id c = the_id cid \<longrightarrow> groupAdmin c \<noteq> Some r"
    by blast
  from transferAdmin_no_admin [OF this, of new pop] assms show False by simp
qed

text \<open>
  Claim C1 on the source. The writes of \<^verbatim>\<open>addToGroup\<close> and \<^verbatim>\<open>removeFromGroup\<close> are filtered
  by the id alone. The admin \<open>a\<close> passes the check of an add-members request (and of a
  remove-member request); a transfer of the admin role to \<open>b\<close> commits in between; the
  write of the request then commits although the admin is no longer the requester.
\<close>

theorem stale_admin_write_commits:
  "addToGroup_check (Some ''a'') (Id ''g1'') (Some [Id ''d'']) w_team = Inr [''d'']
   \<and> map groupAdmin (chats (fst (transferAdmin (Some ''a'') (Id ''g1'') (Id ''b'') True w_team)))
       = [Some ''b'']
   \<and> success (snd (addToGroup_commit ''g1'' [''d''] True
        (fst (transferAdmin (Some ''a'') (Id ''g1'') (Id ''b'') True w_team))))
   \<and> map users (chats (fst (addToGroup_commit ''g1'' [''d''] True
        (fst (transferAdmin (Some ''a'') (Id ''g1'') (Id ''b'') True w_team)))))
       = [[''a'', ''b'', ''c'', ''d'']]
   \<and> removeFromGroup_check (Some ''a'') (Id ''g1'') (Id ''c'') w_team = Inr ()
   \<and> success (snd (removeFromGroup_commit (Some ''a'') ''g1'' ''c'' True
        (fst (transferAdmin (Some ''a'') (Id ''g1'') (Id ''b'') True w_team))))
   \<and> map users (chats (fst (removeFromGroup_commit (Some ''a'') ''g1'' ''c'' True
        (fst (transferAdmin (Some ''a'') (Id ''g1'') (Id ''b'') True w_team)))))
       = [[''a'', ''b'']]"
  by (simp add: controller_defs)

theorem stale_admin_write_commits_witness:
  "map users (chats (fst (addToGroup_commit ''g1'' [''d''] True
        (fst (transferAdmin (Some ''a'') (Id ''g1'') (Id ''b'') True w_team)))))
       = [[''a'', ''b'', ''c'', ''d'']]
   \<and> map groupAdmin (chats (fst (transferAdmin (Some ''a'') (Id ''g1'') (Id ''b'') True w_team)))
       \<noteq> [Some ''a'']"
  using stale_admin_write_commits by simp

end
